theory Spec2Isabelle
  imports Main
begin

section \<open>The asset deletion handler \<open>functions/api/manage/delete/[id].js\<close>\<close>

text \<open>
  The handler \<open>onRequest\<close> resolves an asset identifier to a metadata record of a
  key-value namespace, decides which backend holds the payload, and deletes payload and
  metadata. It talks to three collaborators: the key-value namespace \<open>env.img_url\<close>, the
  object-store bucket \<open>env.R2_BUCKET\<close> and the Telegram Bot API reached through \<open>fetch\<close>.
  The embedding threads a \<open>world\<close> through every call: the contents of the key-value
  namespace and the trace of the calls issued to the collaborators, in the order they were
  awaited. Exceptions are values: a computation that may throw returns \<open>Inl message\<close>.
  Console output is not modelled.
\<close>

subsection \<open>JavaScript values\<close>

text \<open>
  The values the handler reads from metadata and from the Telegram response body, and the
  values it writes into its JSON response. Numbers are restricted to integers: the handler
  only tests them for truthiness and passes them on.
\<close>

datatype jsval =
    JUndefined
  | JNull
  | JBool bool
  | JNum int
  | JStr string
  | JArr "jsval list"
  | JObj "(string \<times> jsval) list"

text \<open>JavaScript's \<open>ToBoolean\<close>: what \<open>!v\<close>, \<open>v ? a : b\<close> and \<open>v || w\<close> test.\<close>

fun truthy :: "jsval \<Rightarrow> bool" where
  "truthy JUndefined = False"
| "truthy JNull = False"
| "truthy (JBool b) = b"
| "truthy (JNum n) = (n \<noteq> 0)"
| "truthy (JStr s) = (s \<noteq> [])"
| "truthy (JArr vs) = True"
| "truthy (JObj fs) = True"

text \<open>\<open>a || b\<close> yields \<open>a\<close> itself when it is truthy, otherwise \<open>b\<close>.\<close>

definition js_or :: "jsval \<Rightarrow> jsval \<Rightarrow> jsval" where
  "js_or a b = (if truthy a then a else b)"

text \<open>An environment variable that is unset is \<open>undefined\<close>; an empty string is falsy too.\<close>

fun truthy_var :: "string option \<Rightarrow> bool" where
  "truthy_var None = False"
| "truthy_var (Some s) = (s \<noteq> [])"

text \<open>An environment variable inside a template literal.\<close>

fun var_text :: "string option \<Rightarrow> string" where
  "var_text None = ''undefined''"
| "var_text (Some s) = s"

text \<open>\<open>s.startsWith(p)\<close> and \<open>s.slice(3)\<close> on strings.\<close>

definition startsWith :: "string \<Rightarrow> string \<Rightarrow> bool" where
  "startsWith s p = (take (length p) s = p)"

definition slice3 :: "string \<Rightarrow> string" where
  "slice3 s = drop 3 s"

text \<open>
  \<open>data.ok\<close>: reading a property of \<open>null\<close> or \<open>undefined\<close> throws a TypeError
  (\<open>None\<close>); an object yields the property's value (the last one when the parsed text
  repeated the name) or \<open>undefined\<close>; every other value has no property \<open>ok\<close>.
\<close>

fun prop_ok :: "jsval \<Rightarrow> jsval option" where
  "prop_ok JUndefined = None"
| "prop_ok JNull = None"
| "prop_ok (JObj fs) =
     (case map_of (rev fs) ''ok'' of None \<Rightarrow> Some JUndefined | Some v \<Rightarrow> Some v)"
| "prop_ok v = Some JUndefined"

subsection \<open>Data model\<close>

text \<open>
  The attributes of a metadata object that the handler reads. A field the object lacks is
  \<open>JUndefined\<close>. \<open>record.metadata\<close> is \<open>None\<close> when it is \<open>null\<close> or otherwise falsy,
  so \<open>Some md\<close> is exactly a truthy \<open>record.metadata\<close>.
\<close>

record metadata =
  storageType :: jsval
  storage :: jsval
  r2Key :: jsval
  telegramMessageId :: jsval

text \<open>What \<open>getWithMetadata\<close> resolves to: \<open>{value, metadata}\<close>.\<close>

record kv_record =
  rec_value :: "string option"
  rec_metadata :: "metadata option"

text \<open>The calls awaited on the collaborators.\<close>

datatype event =
    KVGet string
  | KVDelete string
  | R2Delete jsval
  | TGDeleteMessage string string jsval

record world =
  kv :: "string \<rightharpoonup> kv_record"
  trace :: "event list"

text \<open>What \<open>fetch\<close> and \<open>response.json()\<close> do at the Bot API call.\<close>

datatype json_outcome = JsonThrows | JsonValue jsval

datatype fetch_outcome =
    FetchThrows string
  | FetchResponse bool json_outcome

type_synonym fetch_fn = "string \<Rightarrow> string \<Rightarrow> jsval \<Rightarrow> fetch_outcome"

text \<open>
  The bindings of \<open>context.env\<close>. \<open>img_url\<close> tells whether the key-value binding is
  configured (its contents are \<open>kv\<close> of the world). \<open>R2_BUCKET\<close>, when configured, gives
  for each key what \<open>delete\<close> does: \<open>None\<close> when it resolves, \<open>Some m\<close> when it rejects
  with an error of message \<open>m\<close>.
\<close>

record env =
  img_url :: bool
  R2_BUCKET :: "(jsval \<Rightarrow> string option) option"
  TG_Bot_Token :: "string option"
  TG_Chat_ID :: "string option"

record response =
  status :: nat
  body :: "(string \<times> jsval) list"

subsection \<open>The key-value namespace\<close>

text \<open>
  \<open>env.img_url.getWithMetadata(key)\<close> resolves to \<open>{value: null, metadata: null}\<close> for
  a key that is not stored. \<open>env.img_url.delete(key)\<close> removes the key. Both calls are
  taken to resolve: a namespace that rejects a call is outside this model.
\<close>

definition getWithMetadata :: "string \<Rightarrow> world \<Rightarrow> kv_record \<times> world" where
  "getWithMetadata key w =
     ((case kv w key of
         None \<Rightarrow> \<lparr>rec_value = None, rec_metadata = None\<rparr>
       | Some r \<Rightarrow> r),
      w\<lparr>trace := trace w @ [KVGet key]\<rparr>)"

definition kv_delete :: "string \<Rightarrow> world \<Rightarrow> world" where
  "kv_delete key w = w\<lparr>kv := (kv w)(key := None), trace := trace w @ [KVDelete key]\<rparr>"

subsection \<open>\<open>jsonResponse\<close>\<close>

text \<open>
  \<open>JSON.stringify\<close> of an object literal leaves out every property whose value is
  \<open>undefined\<close>. The text is represented by the list of its members, in order.
\<close>

definition JSON_stringify :: "(string \<times> jsval) list \<Rightarrow> (string \<times> jsval) list" where
  "JSON_stringify obj = filter (\<lambda>(k, v). v \<noteq> JUndefined) obj"

definition jsonResponse :: "(string \<times> jsval) list \<Rightarrow> nat \<Rightarrow> response" where
  "jsonResponse obj st = \<lparr>status = st, body = JSON_stringify obj\<rparr>"

subsection \<open>\<open>getRecordWithKey\<close>\<close>

definition prefixes :: "string list" where
  "prefixes = [''img:'', ''vid:'', ''aud:'', ''doc:'', ''r2:'', '''']"

definition hasKnownPrefix :: "string \<Rightarrow> bool" where
  "hasKnownPrefix fileId = list_ex (\<lambda>prefix. prefix \<noteq> [] \<and> startsWith fileId prefix) prefixes"

definition candidateKeys :: "string \<Rightarrow> string list" where
  "candidateKeys fileId =
     (if hasKnownPrefix fileId then [fileId] else map (\<lambda>prefix. prefix @ fileId) prefixes)"

text \<open>The \<open>for\<close> loop over the candidate keys: it returns at the first truthy metadata.\<close>

fun probe :: "string list \<Rightarrow> world \<Rightarrow> (kv_record \<times> string) option \<times> world" where
  "probe [] w = (None, w)"
| "probe (key # keys) w =
     (case getWithMetadata key w of
        (record, w') \<Rightarrow>
          (if rec_metadata record \<noteq> None then (Some (record, key), w')
           else probe keys w'))"

text \<open>The result \<open>{record, kvKey}\<close> is a pair; \<open>record: null\<close> is \<open>None\<close>.\<close>

definition getRecordWithKey :: "string \<Rightarrow> world \<Rightarrow> (kv_record option \<times> string) \<times> world" where
  "getRecordWithKey fileId w =
     (case probe (candidateKeys fileId) w of
        (Some (record, key), w') \<Rightarrow> ((Some record, key), w')
      | (None, w') \<Rightarrow> ((None, fileId), w'))"

subsection \<open>\<open>deleteTelegramMessage\<close>\<close>

text \<open>
  The body of the outer \<open>try\<close>: \<open>fetch\<close> may throw; a body that does not parse leaves
  \<open>data = {ok: false}\<close>; \<open>response.ok && data.ok\<close> reads \<open>data.ok\<close> only when
  \<open>response.ok\<close> is true, and yields \<open>data.ok\<close> itself then.
\<close>

definition deleteTelegramMessage_try ::
  "fetch_fn \<Rightarrow> string \<Rightarrow> string \<Rightarrow> jsval \<Rightarrow> world \<Rightarrow> (string + jsval) \<times> world" where
  "deleteTelegramMessage_try fetch token chat messageId w =
     (let w' = w\<lparr>trace := trace w @ [TGDeleteMessage token chat messageId]\<rparr> in
      case fetch token chat messageId of
        FetchThrows msg \<Rightarrow> (Inl msg, w')
      | FetchResponse response_ok parsed \<Rightarrow>
          (let data = (case parsed of
                         JsonThrows \<Rightarrow> JObj [(''ok'', JBool False)]
                       | JsonValue v \<Rightarrow> v)
           in if \<not> response_ok then (Inr (JBool False), w')
              else (case prop_ok data of
                      None \<Rightarrow> (Inl ''TypeError'', w')
                    | Some ack \<Rightarrow> (Inr ack, w'))))"

definition deleteTelegramMessage ::
  "fetch_fn \<Rightarrow> jsval \<Rightarrow> env \<Rightarrow> world \<Rightarrow> (string + jsval) \<times> world" where
  "deleteTelegramMessage fetch messageId e w =
     (if \<not> truthy messageId \<or> \<not> truthy_var (TG_Bot_Token e) \<or> \<not> truthy_var (TG_Chat_ID e)
      then (Inr (JBool False), w)
      else (case deleteTelegramMessage_try fetch (var_text (TG_Bot_Token e))
                   (var_text (TG_Chat_ID e)) messageId w of
              (Inl error, w') \<Rightarrow> (Inr (JBool False), w')
            | (Inr result, w') \<Rightarrow> (Inr result, w')))"

subsection \<open>\<open>onRequest\<close>\<close>

text \<open>
  Lines 3 to 9: the identifier is percent-decoded, the raw value kept when that throws.
  The platform's \<open>decodeURIComponent\<close> is a parameter; it yields \<open>None\<close> when it throws.
\<close>

definition decode_fileId :: "(string \<Rightarrow> string option) \<Rightarrow> string \<Rightarrow> string" where
  "decode_fileId decodeURIComponent raw =
     (case decodeURIComponent raw of None \<Rightarrow> raw | Some s \<Rightarrow> s)"

text \<open>Line 30.\<close>

definition isR2 :: "string \<Rightarrow> metadata \<Rightarrow> bool" where
  "isR2 fileId md =
     (startsWith fileId ''r2:'' \<or> storageType md = JStr ''r2'' \<or> storage md = JStr ''r2'')"

text \<open>Lines 33 to 35: the key into the bucket.\<close>

definition resolve_r2Key :: "metadata \<Rightarrow> string \<Rightarrow> string \<Rightarrow> jsval" where
  "resolve_r2Key md kvKey fileId =
     js_or (r2Key md)
       (js_or (if startsWith kvKey ''r2:'' then JStr (slice3 kvKey) else JNull)
          (if startsWith fileId ''r2:'' then JStr (slice3 fileId) else JStr fileId))"

text \<open>Lines 32 to 55: the object-store branch. It throws into the handler's outer \<open>catch\<close>.\<close>

definition r2_branch ::
  "env \<Rightarrow> string \<Rightarrow> string \<Rightarrow> metadata \<Rightarrow> world \<Rightarrow> (string + response) \<times> world" where
  "r2_branch e fileId kvKey md w =
     (let key = resolve_r2Key md kvKey fileId in
      case R2_BUCKET e of
        None \<Rightarrow> (Inl ''R2 bucket is not configured.'', w)
      | Some bucket \<Rightarrow>
          if \<not> truthy key then (Inl ''Failed to resolve R2 key.'', w)
          else
            (let w1 = w\<lparr>trace := trace w @ [R2Delete key]\<rparr> in
             case bucket key of
               Some msg \<Rightarrow> (Inl msg, w1)
             | None \<Rightarrow>
                 (let w2 = kv_delete kvKey w1 in
                  (Inr (jsonResponse
                     [(''success'', JBool True),
                      (''message'', JStr ''Deleted from R2 and KV.''),
                      (''fileId'', JStr fileId),
                      (''r2Key'', key),
                      (''kvKey'', JStr kvKey)] 200), w2))))"

text \<open>
  Lines 60 to 98: the Telegram branch. \<open>step\<close> stands for the call of
  \<open>deleteTelegramMessage\<close> inside the \<open>try\<close>: when it throws, the \<open>catch\<close> keeps the
  error; the \<open>finally\<close> deletes the metadata key in every case.
\<close>

type_synonym step_fn = "jsval \<Rightarrow> env \<Rightarrow> world \<Rightarrow> (string + jsval) \<times> world"

definition telegram_try ::
  "step_fn \<Rightarrow> env \<Rightarrow> metadata \<Rightarrow> world \<Rightarrow> (jsval \<times> bool \<times> string option) \<times> world" where
  "telegram_try step e md w =
     (if truthy (telegramMessageId md) then
        (case step (telegramMessageId md) e w of
           (Inr result, w') \<Rightarrow> ((result, True, None), w')
         | (Inl error, w') \<Rightarrow> ((JBool False, True, Some error), w'))
      else ((JBool False, False, None), w))"

definition telegram_branch ::
  "step_fn \<Rightarrow> env \<Rightarrow> string \<Rightarrow> string \<Rightarrow> metadata \<Rightarrow> world \<Rightarrow> (string + response) \<times> world" where
  "telegram_branch step e fileId kvKey md w =
     (case telegram_try step e md w of
        ((telegramDeleted, telegramDeleteAttempted, telegramDeleteError), w1) \<Rightarrow>
          (let w2 = kv_delete kvKey w1 in
           (Inr (jsonResponse
              [(''success'', JBool True),
               (''message'', JStr (if truthy telegramDeleted
                  then ''Deleted from Telegram and KV.''
                  else ''KV metadata deleted (Telegram deletion best-effort).'')),
               (''fileId'', JStr fileId),
               (''kvKey'', JStr kvKey),
               (''telegramDeleteAttempted'', JBool telegramDeleteAttempted),
               (''telegramDeleted'', telegramDeleted),
               (''warning'', JStr (if truthy telegramDeleted
                  then ''''
                  else ''Telegram deletion failed or messageId missing, but KV metadata was forcibly deleted.'')),
               (''telegramDeleteError'',
                  (case telegramDeleteError of None \<Rightarrow> JNull | Some m \<Rightarrow> JStr m))] 200), w2)))"

text \<open>Lines 13 to 98: the body of the outer \<open>try\<close>.\<close>

definition not_found :: response where
  "not_found =
     jsonResponse [(''success'', JBool False), (''error'', JStr ''File metadata not found.'')] 404"

definition onRequest_try ::
  "step_fn \<Rightarrow> env \<Rightarrow> string \<Rightarrow> world \<Rightarrow> (string + response) \<times> world" where
  "onRequest_try step e fileId w =
     (if \<not> img_url e then (Inl ''KV binding img_url is not configured.'', w)
      else
        (case getRecordWithKey fileId w of
           ((None, kvKey), w1) \<Rightarrow> (Inr not_found, w1)
         | ((Some record, kvKey), w1) \<Rightarrow>
             (case rec_metadata record of
                None \<Rightarrow> (Inr not_found, w1)
              | Some md \<Rightarrow>
                  if isR2 fileId md then r2_branch e fileId kvKey md w1
                  else telegram_branch step e fileId kvKey md w1)))"

text \<open>Lines 99 to 108: the outer \<open>catch\<close> turns a thrown error into the 500 response.\<close>

definition respond :: "(string + response) \<times> world \<Rightarrow> response \<times> world" where
  "respond r =
     (case r of
        (Inr resp, w') \<Rightarrow> (resp, w')
      | (Inl msg, w') \<Rightarrow>
          (jsonResponse [(''success'', JBool False), (''error'', JStr msg)] 500, w'))"

text \<open>The handler, for any remote-deletion step.\<close>

definition onRequest_with ::
  "step_fn \<Rightarrow> (string \<Rightarrow> string option) \<Rightarrow> env \<Rightarrow> string \<Rightarrow> world \<Rightarrow> response \<times> world" where
  "onRequest_with step decodeURIComponent e raw w =
     respond (onRequest_try step e (decode_fileId decodeURIComponent raw) w)"

text \<open>
  The handler as deployed: the step is \<open>deleteTelegramMessage\<close> over the platform's
  \<open>fetch\<close>, a parameter that tells what the Bot API call does.
\<close>

definition onRequest ::
  "fetch_fn \<Rightarrow> (string \<Rightarrow> string option) \<Rightarrow> env \<Rightarrow> string \<Rightarrow> world \<Rightarrow> response \<times> world" where
  "onRequest fetch decodeURIComponent e raw w =
     onRequest_with (deleteTelegramMessage fetch) decodeURIComponent e raw w"

subsection \<open>Observations on a run\<close>

text \<open>
  The metadata a lookup of \<open>key\<close> yields in world \<open>w\<close>, and the calls issued between a
  world \<open>w\<close> and a later world \<open>w'\<close>.
\<close>

definition metadata_at :: "world \<Rightarrow> string \<Rightarrow> metadata option" where
  "metadata_at w key = rec_metadata (fst (getWithMetadata key w))"

definition issued :: "world \<Rightarrow> world \<Rightarrow> event list" where
  "issued w w' = drop (length (trace w)) (trace w')"

fun is_KVDelete :: "event \<Rightarrow> bool" where
  "is_KVDelete (KVDelete key) = True"
| "is_KVDelete ev = False"

fun is_TGDeleteMessage :: "event \<Rightarrow> bool" where
  "is_TGDeleteMessage (TGDeleteMessage token chat messageId) = True"
| "is_TGDeleteMessage ev = False"

fun is_KVGet :: "event \<Rightarrow> bool" where
  "is_KVGet (KVGet key) = True"
| "is_KVGet ev = False"

text \<open>A member of the response's JSON body.\<close>

definition field :: "response \<Rightarrow> string \<Rightarrow> jsval option" where
  "field resp name = map_of (body resp) name"

subsection \<open>Example worlds\<close>

text \<open>
  Concrete metadata, environments and worlds on which the properties below are run.
  \<open>md_telegram\<close> is the metadata of an asset held as Telegram message 42, \<open>md_plain\<close>
  metadata with no message reference, \<open>md_r2\<close> metadata of an object-store asset without
  an explicit key.
\<close>

definition md_telegram :: metadata where
  "md_telegram =
     \<lparr>storageType = JStr ''telegram'', storage = JUndefined, r2Key = JUndefined,
      telegramMessageId = JNum 42\<rparr>"

definition md_plain :: metadata where
  "md_plain =
     \<lparr>storageType = JUndefined, storage = JUndefined, r2Key = JUndefined,
      telegramMessageId = JUndefined\<rparr>"

definition md_r2 :: metadata where
  "md_r2 =
     \<lparr>storageType = JStr ''r2'', storage = JUndefined, r2Key = JUndefined,
      telegramMessageId = JUndefined\<rparr>"

definition stored :: "metadata \<Rightarrow> kv_record" where
  "stored md = \<lparr>rec_value = Some [], rec_metadata = Some md\<rparr>"

definition world_empty :: world where
  "world_empty = \<lparr>kv = Map.empty, trace = []\<rparr>"

text \<open>The same base string stored under the image and under the document prefix.\<close>

definition world_two :: world where
  "world_two =
     \<lparr>kv = [''img:xyz'' \<mapsto> stored md_telegram, ''doc:xyz'' \<mapsto> stored md_plain], trace = []\<rparr>"

text \<open>
  An environment with every binding configured, whose bucket deletes without error, and
  one whose bucket rejects every delete.
\<close>

definition env_full :: env where
  "env_full =
     \<lparr>img_url = True, R2_BUCKET = Some (\<lambda>key. None),
      TG_Bot_Token = Some ''token'', TG_Chat_ID = Some ''chat''\<rparr>"

definition env_r2_fails :: env where
  "env_r2_fails =
     \<lparr>img_url = True, R2_BUCKET = Some (\<lambda>key. Some ''bucket unavailable''),
      TG_Bot_Token = Some ''token'', TG_Chat_ID = Some ''chat''\<rparr>"

definition env_no_token :: env where
  "env_no_token =
     \<lparr>img_url = True, R2_BUCKET = Some (\<lambda>key. None),
      TG_Bot_Token = None, TG_Chat_ID = Some ''chat''\<rparr>"

text \<open>
  What the Bot API call may do: throw a network error, answer 200 with \<open>{"ok": true}\<close>,
  answer 200 with \<open>{}\<close>.
\<close>

definition fetch_throws :: fetch_fn where
  "fetch_throws token chat messageId = FetchThrows ''network error''"

definition fetch_ok :: fetch_fn where
  "fetch_ok token chat messageId = FetchResponse True (JsonValue (JObj [(''ok'', JBool True)]))"

definition fetch_no_ack :: fetch_fn where
  "fetch_no_ack token chat messageId = FetchResponse True (JsonValue (JObj []))"

text \<open>A remote-deletion step that throws, and a decoder that leaves its input as it is.\<close>

definition step_throws :: step_fn where
  "step_throws messageId e w = (Inl ''step failed'', w)"

definition decode_plain :: "string \<Rightarrow> string option" where
  "decode_plain raw = Some raw"

text \<open>An object-store asset stored under its prefixed key.\<close>

definition world_r2 :: world where
  "world_r2 = \<lparr>kv = [''r2:abc123'' \<mapsto> stored md_r2], trace = []\<rparr>"

subsection \<open>The physical key as the specification words it\<close>

text \<open>
  "First non-empty wins" over the candidates in the specification's order: the record's
  explicit \<open>r2Key\<close>; the storage key without the object-store prefix, if it carries the
  prefix; the identifier without the object-store prefix if it carries it, the raw
  identifier otherwise. A candidate that is absent is \<open>JNull\<close>; non-empty is truthy.
\<close>

definition first_nonempty :: "jsval list \<Rightarrow> jsval option" where
  "first_nonempty vs = find truthy vs"

definition spec_physical_key :: "metadata \<Rightarrow> string \<Rightarrow> string \<Rightarrow> jsval option" where
  "spec_physical_key md kvKey fileId =
     first_nonempty
       [r2Key md,
        if startsWith kvKey ''r2:'' then JStr (slice3 kvKey) else JNull,
        if startsWith fileId ''r2:'' then JStr (slice3 fileId) else JStr fileId]"

section \<open>Properties\<close>

subsection \<open>The key resolver\<close>

lemma metadata_at_trace [simp]: "metadata_at (w\<lparr>trace := t\<rparr>) key = metadata_at w key"
  by (simp add: metadata_at_def getWithMetadata_def)

lemma getWithMetadata_trace [simp]:
  "fst (getWithMetadata key (w\<lparr>trace := t\<rparr>)) = fst (getWithMetadata key w)"
  by (simp add: getWithMetadata_def)

text \<open>The loop probes the keys in order up to the first one that has metadata.\<close>

lemma probe_find:
  "probe keys w =
     (case find (\<lambda>k. metadata_at w k \<noteq> None) keys of
        None \<Rightarrow> (None, w\<lparr>trace := trace w @ map KVGet keys\<rparr>)
      | Some k \<Rightarrow>
          (Some (fst (getWithMetadata k w), k),
           w\<lparr>trace := trace w @ map KVGet (takeWhile (\<lambda>k. metadata_at w k = None) keys @ [k])\<rparr>))"
proof (induction keys arbitrary: w)
  case Nil
  show ?case by simp
next
  case (Cons key keys)
  show ?case
  proof (cases "metadata_at w key")
    case None
    then have "probe (key # keys) w = probe keys (w\<lparr>trace := trace w @ [KVGet key]\<rparr>)"
      by (simp add: metadata_at_def getWithMetadata_def)
    then show ?thesis using None
      by (simp add: Cons.IH split: option.splits)
  next
    case (Some md)
    then show ?thesis
      by (simp add: metadata_at_def getWithMetadata_def)
  qed
qed

lemma distinct_candidates: "distinct (map (\<lambda>prefix. prefix @ fileId) prefixes)"
  by (simp add: distinct_map inj_on_def prefixes_def)

lemma first_hit_wins:
  "distinct xs \<Longrightarrow> find P xs = Some k \<Longrightarrow> i < j \<Longrightarrow> j < length xs \<Longrightarrow> P (xs ! i) \<Longrightarrow>
     k \<noteq> xs ! j \<and> xs ! j \<notin> set (takeWhile (\<lambda>x. \<not> P x) xs @ [k])"
proof (induction xs arbitrary: i j)
  case Nil
  then show ?case by simp
next
  case (Cons x xs)
  show ?case
  proof (cases "P x")
    case True
    with Cons.prems show ?thesis by (cases j) auto
  next
    case False
    with Cons.prems obtain i' j' where ij: "i = Suc i'" "j = Suc j'"
      by (cases i; cases j) auto
    with Cons.prems False have "k \<noteq> xs ! j' \<and> xs ! j' \<notin> set (takeWhile (\<lambda>x. \<not> P x) xs @ [k])"
      by (intro Cons.IH) auto
    with Cons.prems False ij show ?thesis by auto
  qed
qed

lemma getRecordWithKey_find:
  "getRecordWithKey fileId w =
     (case find (\<lambda>k. metadata_at w k \<noteq> None) (candidateKeys fileId) of
        None \<Rightarrow> ((None, fileId), w\<lparr>trace := trace w @ map KVGet (candidateKeys fileId)\<rparr>)
      | Some k \<Rightarrow>
          ((Some (fst (getWithMetadata k w)), k),
           w\<lparr>trace := trace w @
              map KVGet (takeWhile (\<lambda>k. metadata_at w k = None) (candidateKeys fileId) @ [k])\<rparr>))"
  by (simp add: getRecordWithKey_def probe_find split: option.splits)

lemma issued_append [simp]: "issued w (w'\<lparr>trace := trace w @ evs\<rparr>) = evs"
  by (simp add: issued_def)

text \<open>
  Claim C4. For an identifier that carries none of the non-empty known prefixes, the
  candidate keys are the identifier under the prefixes \<open>img:\<close>, \<open>vid:\<close>, \<open>aud:\<close>,
  \<open>doc:\<close>, \<open>r2:\<close> and the bare identifier, in this order. The resolver looks them up in
  this order and stops at the first key whose record has metadata; it returns that record
  and that key. When an earlier candidate has metadata, a later candidate is neither
  returned nor looked up. The lookups change nothing in the namespace.
\<close>

theorem resolver_probes_in_order:
  assumes "\<not> hasKnownPrefix fileId"
  shows "candidateKeys fileId =
           [''img:'' @ fileId, ''vid:'' @ fileId, ''aud:'' @ fileId, ''doc:'' @ fileId,
            ''r2:'' @ fileId, fileId]
       \<and> (case find (\<lambda>k. metadata_at w k \<noteq> None) (candidateKeys fileId) of
            None \<Rightarrow>
              fst (getRecordWithKey fileId w) = (None, fileId)
              \<and> issued w (snd (getRecordWithKey fileId w)) = map KVGet (candidateKeys fileId)
          | Some k \<Rightarrow>
              fst (getRecordWithKey fileId w) = (Some (fst (getWithMetadata k w)), k)
              \<and> issued w (snd (getRecordWithKey fileId w)) =
                  map KVGet (takeWhile (\<lambda>k. metadata_at w k = None) (candidateKeys fileId) @ [k]))
       \<and> (\<forall>i j. i < j \<and> j < length (candidateKeys fileId)
              \<and> metadata_at w (candidateKeys fileId ! i) \<noteq> None \<longrightarrow>
            snd (fst (getRecordWithKey fileId w)) \<noteq> candidateKeys fileId ! j
            \<and> KVGet (candidateKeys fileId ! j) \<notin> set (issued w (snd (getRecordWithKey fileId w))))
       \<and> kv (snd (getRecordWithKey fileId w)) = kv w"
proof -
  let ?cs = "candidateKeys fileId"
  let ?P = "\<lambda>k. metadata_at w k \<noteq> None"
  have cs: "?cs = map (\<lambda>prefix. prefix @ fileId) prefixes"
    using assms by (simp add: candidateKeys_def)
  have c1: "?cs = [''img:'' @ fileId, ''vid:'' @ fileId, ''aud:'' @ fileId, ''doc:'' @ fileId,
            ''r2:'' @ fileId, fileId]"
    by (simp add: cs prefixes_def)
  have d: "distinct ?cs"
    by (simp only: cs distinct_candidates)
  have c2: "(case find ?P ?cs of
            None \<Rightarrow>
              fst (getRecordWithKey fileId w) = (None, fileId)
              \<and> issued w (snd (getRecordWithKey fileId w)) = map KVGet ?cs
          | Some k \<Rightarrow>
              fst (getRecordWithKey fileId w) = (Some (fst (getWithMetadata k w)), k)
              \<and> issued w (snd (getRecordWithKey fileId w)) =
                  map KVGet (takeWhile (\<lambda>k. metadata_at w k = None) ?cs @ [k]))"
    by (simp add: getRecordWithKey_find split: option.splits)
  have c3: "snd (fst (getRecordWithKey fileId w)) \<noteq> ?cs ! j
            \<and> KVGet (?cs ! j) \<notin> set (issued w (snd (getRecordWithKey fileId w)))"
    if ij: "i < j" "j < length ?cs" and hit: "?P (?cs ! i)" for i j
  proof -
    from ij hit have "?cs ! i \<in> set ?cs \<and> ?P (?cs ! i)" by simp
    then obtain k where k: "find ?P ?cs = Some k"
      by (cases "find ?P ?cs") (auto simp: find_None_iff)
    from first_hit_wins [OF d k ij hit]
    have "k \<noteq> ?cs ! j \<and> ?cs ! j \<notin> set (takeWhile (\<lambda>k. metadata_at w k = None) ?cs @ [k])"
      by simp
    moreover have "getRecordWithKey fileId w =
        ((Some (fst (getWithMetadata k w)), k),
         w\<lparr>trace := trace w @
              map KVGet (takeWhile (\<lambda>k. metadata_at w k = None) ?cs @ [k])\<rparr>)"
      unfolding getRecordWithKey_find k by simp
    ultimately show ?thesis
      by (simp add: image_iff)
  qed
  have c4: "kv (snd (getRecordWithKey fileId w)) = kv w"
    by (simp add: getRecordWithKey_find split: option.splits)
  from c1 c2 c3 c4 show ?thesis by blast
qed

theorem resolver_probes_in_order_witness:
  "\<not> hasKnownPrefix ''xyz''
   \<and> metadata_at world_two ''img:xyz'' = Some md_telegram
   \<and> metadata_at world_two ''doc:xyz'' = Some md_plain
   \<and> fst (getRecordWithKey ''xyz'' world_two) = (Some (stored md_telegram), ''img:xyz'')
   \<and> issued world_two (snd (getRecordWithKey ''xyz'' world_two)) = [KVGet ''img:xyz'']"
proof -
  have h: "\<not> hasKnownPrefix ''xyz''"
    by (simp add: hasKnownPrefix_def prefixes_def startsWith_def)
  have m: "metadata_at world_two ''img:xyz'' = Some md_telegram"
          "metadata_at world_two ''doc:xyz'' = Some md_plain"
    by (simp_all add: metadata_at_def getWithMetadata_def world_two_def stored_def)
  have g: "fst (getWithMetadata ''img:xyz'' world_two) = stored md_telegram"
    by (simp add: getWithMetadata_def world_two_def)
  note t = resolver_probes_in_order [OF h, of world_two]
  from t have ck: "candidateKeys ''xyz'' =
      [''img:xyz'', ''vid:xyz'', ''aud:xyz'', ''doc:xyz'', ''r2:xyz'', ''xyz'']"
    by simp
  have f: "find (\<lambda>k. metadata_at world_two k \<noteq> None) (candidateKeys ''xyz'') = Some ''img:xyz''"
    by (simp add: ck m)
  from t have "fst (getRecordWithKey ''xyz'' world_two) = (Some (stored md_telegram), ''img:xyz'')
     \<and> issued world_two (snd (getRecordWithKey ''xyz'' world_two)) = [KVGet ''img:xyz'']"
    unfolding f by (simp add: g ck m)
  with h m show ?thesis by simp
qed

lemma hasKnownPrefix_iff:
  "hasKnownPrefix fileId \<longleftrightarrow>
     startsWith fileId ''img:'' \<or> startsWith fileId ''vid:'' \<or> startsWith fileId ''aud:''
     \<or> startsWith fileId ''doc:'' \<or> startsWith fileId ''r2:''"
  by (simp add: hasKnownPrefix_def prefixes_def)

lemma last_candidateKeys: "candidateKeys fileId \<noteq> [] \<and> last (candidateKeys fileId) = fileId"
  by (simp add: candidateKeys_def prefixes_def)

text \<open>
  Claim C8, as stated, counts the empty prefix ("no prefix marker") among the known
  prefixes an identifier can carry. The identifier \<open>xyz\<close> carries the empty prefix, the
  last entry of \<open>prefixes\<close>, and the resolver makes six lookups for it, not one: the test
  \<open>prefix && fileId.startsWith(prefix)\<close> leaves the empty prefix out.
\<close>

theorem literal_lookup_counterexample:
  "'''' \<in> set prefixes \<and> startsWith ''xyz'' ''''
   \<and> issued world_empty (snd (getRecordWithKey ''xyz'' world_empty)) =
       [KVGet ''img:xyz'', KVGet ''vid:xyz'', KVGet ''aud:xyz'', KVGet ''doc:xyz'',
        KVGet ''r2:xyz'', KVGet ''xyz'']
   \<and> length (issued world_empty (snd (getRecordWithKey ''xyz'' world_empty))) \<noteq> 1"
  by (simp add: prefixes_def startsWith_def getRecordWithKey_find candidateKeys_def
      hasKnownPrefix_def metadata_at_def getWithMetadata_def world_empty_def issued_def)

text \<open>
  Claim C8, amended. If the identifier starts with one of the non-empty known prefixes
  \<open>img:\<close>, \<open>vid:\<close>, \<open>aud:\<close>, \<open>doc:\<close>, \<open>r2:\<close>, it is the only candidate key and
  the resolver makes exactly one lookup, of the identifier itself. For every identifier,
  when no candidate key has metadata the resolver returns no record together with the
  identifier, which is the key it looked up last.
\<close>

theorem resolver_literal_key:
  "(startsWith fileId ''img:'' \<or> startsWith fileId ''vid:'' \<or> startsWith fileId ''aud:''
      \<or> startsWith fileId ''doc:'' \<or> startsWith fileId ''r2:'' \<longrightarrow>
      candidateKeys fileId = [fileId]
      \<and> issued w (snd (getRecordWithKey fileId w)) = [KVGet fileId])
   \<and> ((\<forall>k \<in> set (candidateKeys fileId). metadata_at w k = None) \<longrightarrow>
      fst (getRecordWithKey fileId w) = (None, fileId)
      \<and> issued w (snd (getRecordWithKey fileId w)) = map KVGet (candidateKeys fileId)
      \<and> last (issued w (snd (getRecordWithKey fileId w))) = KVGet fileId)"
proof (intro conjI impI)
  assume "startsWith fileId ''img:'' \<or> startsWith fileId ''vid:'' \<or> startsWith fileId ''aud:''
      \<or> startsWith fileId ''doc:'' \<or> startsWith fileId ''r2:''"
  then have h: "hasKnownPrefix fileId"
    by (simp add: hasKnownPrefix_iff)
  then show c: "candidateKeys fileId = [fileId]"
    by (simp add: candidateKeys_def)
  show "issued w (snd (getRecordWithKey fileId w)) = [KVGet fileId]"
    by (simp add: getRecordWithKey_find c)
next
  assume none: "\<forall>k \<in> set (candidateKeys fileId). metadata_at w k = None"
  then have f: "find (\<lambda>k. metadata_at w k \<noteq> None) (candidateKeys fileId) = None"
    by (simp add: find_None_iff)
  have g: "getRecordWithKey fileId w =
      ((None, fileId), w\<lparr>trace := trace w @ map KVGet (candidateKeys fileId)\<rparr>)"
    unfolding getRecordWithKey_find f by simp
  show "fst (getRecordWithKey fileId w) = (None, fileId)"
    by (simp add: g)
  show "issued w (snd (getRecordWithKey fileId w)) = map KVGet (candidateKeys fileId)"
    by (simp add: g)
  show "last (issued w (snd (getRecordWithKey fileId w))) = KVGet fileId"
    using last_candidateKeys [of fileId] by (simp add: g last_map)
qed

theorem resolver_literal_key_witness:
  "startsWith ''r2:abc123'' ''r2:''
   \<and> candidateKeys ''r2:abc123'' = [''r2:abc123'']
   \<and> metadata_at world_empty ''r2:abc123'' = None
   \<and> fst (getRecordWithKey ''r2:abc123'' world_empty) = (None, ''r2:abc123'')
   \<and> issued world_empty (snd (getRecordWithKey ''r2:abc123'' world_empty)) = [KVGet ''r2:abc123'']
   \<and> last (issued world_empty (snd (getRecordWithKey ''r2:abc123'' world_empty))) = KVGet ''r2:abc123''"
proof -
  have s: "startsWith ''r2:abc123'' ''r2:''"
    by (simp add: startsWith_def)
  have m: "metadata_at world_empty ''r2:abc123'' = None"
    by (simp add: metadata_at_def getWithMetadata_def world_empty_def)
  note t = resolver_literal_key [of "''r2:abc123''" world_empty]
  from t s have c: "candidateKeys ''r2:abc123'' = [''r2:abc123'']"
    and i: "issued world_empty (snd (getRecordWithKey ''r2:abc123'' world_empty)) = [KVGet ''r2:abc123'']"
    by simp_all
  from t c m have "fst (getRecordWithKey ''r2:abc123'' world_empty) = (None, ''r2:abc123'')
    \<and> last (issued world_empty (snd (getRecordWithKey ''r2:abc123'' world_empty))) = KVGet ''r2:abc123''"
    by simp
  with s c m i show ?thesis by simp
qed

subsection \<open>The handler\<close>

lemma getRecordWithKey_trace:
  "trace (snd (getRecordWithKey fileId w)) = trace w @ issued w (snd (getRecordWithKey fileId w))
   \<and> (\<forall>ev \<in> set (issued w (snd (getRecordWithKey fileId w))). is_KVGet ev)
   \<and> kv (snd (getRecordWithKey fileId w)) = kv w"
  by (auto simp: getRecordWithKey_find split: option.splits dest: set_takeWhileD)

lemma onRequest_try_resolved:
  assumes "img_url e"
    and "getRecordWithKey fileId w = ((Some record, kvKey), w1)"
    and "rec_metadata record = Some md"
  shows "onRequest_try step e fileId w =
     (if isR2 fileId md then r2_branch e fileId kvKey md w1
      else telegram_branch step e fileId kvKey md w1)"
  using assms by (simp add: onRequest_try_def)

lemma telegram_branch_effect:
  "\<exists>resp. telegram_branch step e fileId kvKey md w1 =
      (Inr resp, kv_delete kvKey (snd (telegram_try step e md w1)))"
  by (simp add: telegram_branch_def split: prod.splits)

lemma telegram_try_world:
  "snd (telegram_try step e md w1) =
     (if truthy (telegramMessageId md) then snd (step (telegramMessageId md) e w1) else w1)"
  by (simp add: telegram_try_def split: prod.splits sum.splits)

lemma issued_trans:
  "trace w1 = trace w @ xs \<Longrightarrow> trace w2 = trace w1 @ ys \<Longrightarrow> issued w w2 = xs @ ys"
  by (simp add: issued_def)

lemma KVGet_not_KVDelete: "is_KVGet ev \<Longrightarrow> \<not> is_KVDelete ev"
  by (cases ev) simp_all

text \<open>The messaging branch, for any step: the key-value delete is its last call.\<close>

lemma telegram_path_trace:
  assumes kvb: "img_url e"
    and res: "getRecordWithKey (decode_fileId decodeURIComponent raw) w = ((Some record, kvKey), w1)"
    and md: "rec_metadata record = Some md"
    and cls: "\<not> isR2 (decode_fileId decodeURIComponent raw) md"
    and stp: "step (telegramMessageId md) e w1 = (outcome, ws)"
    and evs: "trace ws = trace w1 @ evs" "\<forall>ev \<in> set evs. \<not> is_KVDelete ev"
    and run: "onRequest_with step decodeURIComponent e raw w = (resp, w')"
  shows "trace w' = trace (if truthy (telegramMessageId md) then ws else w1) @ [KVDelete kvKey]
       \<and> kv w' = (kv (if truthy (telegramMessageId md) then ws else w1))(kvKey := None)
       \<and> issued w w' =
           issued w w1 @ (if truthy (telegramMessageId md) then evs else []) @ [KVDelete kvKey]
       \<and> filter is_KVDelete (issued w w') = [KVDelete kvKey]"
proof -
  let ?fileId = "decode_fileId decodeURIComponent raw"
  let ?wr = "if truthy (telegramMessageId md) then ws else w1"
  have t: "onRequest_try step e ?fileId w = telegram_branch step e ?fileId kvKey md w1"
    using onRequest_try_resolved [OF kvb res md] cls by simp
  have wr: "snd (telegram_try step e md w1) = ?wr"
    by (simp add: telegram_try_world stp)
  from telegram_branch_effect [of step e ?fileId kvKey md w1] wr
  obtain r where r: "telegram_branch step e ?fileId kvKey md w1 = (Inr r, kv_delete kvKey ?wr)"
    by auto
  from run have w': "w' = kv_delete kvKey ?wr"
    by (simp add: onRequest_with_def t r respond_def)
  have c1: "trace w' = trace ?wr @ [KVDelete kvKey]"
    by (simp add: w' kv_delete_def)
  have c2: "kv w' = (kv ?wr)(kvKey := None)"
    by (simp add: w' kv_delete_def)
  from getRecordWithKey_trace [of ?fileId w] res
  have g: "trace w1 = trace w @ issued w w1" "\<forall>ev \<in> set (issued w w1). is_KVGet ev"
    by simp_all
  have tr: "trace w' = trace w1 @ ((if truthy (telegramMessageId md) then evs else []) @ [KVDelete kvKey])"
    using c1 evs(1) by simp
  have c3: "issued w w' =
      issued w w1 @ (if truthy (telegramMessageId md) then evs else []) @ [KVDelete kvKey]"
    by (rule issued_trans [OF g(1) tr])
  have ng: "filter is_KVDelete (issued w w1) = []"
    using g(2) KVGet_not_KVDelete by (auto simp: filter_empty_conv)
  have ne: "filter is_KVDelete evs = []"
    using evs(2) by (simp add: filter_empty_conv)
  have c4: "filter is_KVDelete (issued w w') = [KVDelete kvKey]"
    by (simp add: c3 ng ne)
  from c1 c2 c3 c4 show ?thesis by blast
qed

lemma resolve_xyz_world_two:
  "getRecordWithKey (decode_fileId decode_plain ''xyz'') world_two =
     ((Some (stored md_telegram), ''img:xyz''), world_two\<lparr>trace := [KVGet ''img:xyz'']\<rparr>)"
  by (simp add: decode_fileId_def decode_plain_def getRecordWithKey_def candidateKeys_def
      hasKnownPrefix_def prefixes_def startsWith_def getWithMetadata_def world_two_def stored_def)

lemma not_isR2_xyz: "\<not> isR2 (decode_fileId decode_plain ''xyz'') md_telegram"
  by (simp add: isR2_def decode_fileId_def decode_plain_def startsWith_def md_telegram_def)

subsection \<open>Remote deletion\<close>

text \<open>The result of the remote deletion in closed form.\<close>

lemma deleteTelegramMessage_cases:
  "deleteTelegramMessage fetch messageId e w =
     (if \<not> truthy messageId \<or> \<not> truthy_var (TG_Bot_Token e) \<or> \<not> truthy_var (TG_Chat_ID e)
      then (Inr (JBool False), w)
      else
        (Inr (case fetch (var_text (TG_Bot_Token e)) (var_text (TG_Chat_ID e)) messageId of
                FetchThrows msg \<Rightarrow> JBool False
              | FetchResponse response_ok parsed \<Rightarrow>
                  if \<not> response_ok then JBool False
                  else (case parsed of
                          JsonThrows \<Rightarrow> JBool False
                        | JsonValue data \<Rightarrow>
                            (case prop_ok data of None \<Rightarrow> JBool False | Some ack \<Rightarrow> ack))),
         w\<lparr>trace := trace w @
            [TGDeleteMessage (var_text (TG_Bot_Token e)) (var_text (TG_Chat_ID e)) messageId]\<rparr>))"
  by (simp add: deleteTelegramMessage_def deleteTelegramMessage_try_def Let_def
      split: fetch_outcome.splits json_outcome.splits option.splits)

lemma issued_self [simp]: "issued w w = []"
  by (simp add: issued_def)

text \<open>
  Claim C6. \<open>deleteTelegramMessage\<close> always returns and never throws. What it returns is
  truthy (the caller's test for success) exactly when the transport call was issued,
  \<open>fetch\<close> resolved with \<open>response.ok\<close>, the body parsed, and the \<open>ok\<close> property of the
  parsed body is truthy. When \<open>fetch\<close> throws, when \<open>response.ok\<close> is false and when the
  body does not parse, it returns \<open>false\<close>; when \<open>response.ok\<close> holds and the parsed body
  has no \<open>ok\<close> property, a falsy one, or is \<open>null\<close>, what it returns is falsy. It leaves
  the key-value namespace as it is.
\<close>

theorem remote_delete_success_iff:
  "\<exists>v. fst (deleteTelegramMessage fetch messageId e w) = Inr v
     \<and> (truthy v \<longleftrightarrow>
          issued w (snd (deleteTelegramMessage fetch messageId e w)) =
            [TGDeleteMessage (var_text (TG_Bot_Token e)) (var_text (TG_Chat_ID e)) messageId]
          \<and> (\<exists>data ack.
                fetch (var_text (TG_Bot_Token e)) (var_text (TG_Chat_ID e)) messageId =
                  FetchResponse True (JsonValue data)
                \<and> prop_ok data = Some ack \<and> truthy ack))
     \<and> ((\<exists>msg. fetch (var_text (TG_Bot_Token e)) (var_text (TG_Chat_ID e)) messageId =
            FetchThrows msg) \<longrightarrow> v = JBool False)
     \<and> ((\<exists>parsed. fetch (var_text (TG_Bot_Token e)) (var_text (TG_Chat_ID e)) messageId =
            FetchResponse False parsed) \<longrightarrow> v = JBool False)
     \<and> ((\<exists>response_ok. fetch (var_text (TG_Bot_Token e)) (var_text (TG_Chat_ID e)) messageId =
            FetchResponse response_ok JsonThrows) \<longrightarrow> v = JBool False)
     \<and> ((\<exists>data. fetch (var_text (TG_Bot_Token e)) (var_text (TG_Chat_ID e)) messageId =
            FetchResponse True (JsonValue data)
            \<and> (prop_ok data = None \<or> (\<exists>ack. prop_ok data = Some ack \<and> \<not> truthy ack)))
          \<longrightarrow> \<not> truthy v)
     \<and> kv (snd (deleteTelegramMessage fetch messageId e w)) = kv w"
  by (auto simp: deleteTelegramMessage_cases
      split: fetch_outcome.splits json_outcome.splits option.splits)

theorem remote_delete_success_iff_witness:
  "fst (deleteTelegramMessage fetch_ok (JNum 42) env_full world_empty) = Inr (JBool True)
   \<and> issued world_empty (snd (deleteTelegramMessage fetch_ok (JNum 42) env_full world_empty)) =
       [TGDeleteMessage ''token'' ''chat'' (JNum 42)]
   \<and> fetch_ok ''token'' ''chat'' (JNum 42) =
       FetchResponse True (JsonValue (JObj [(''ok'', JBool True)]))
   \<and> prop_ok (JObj [(''ok'', JBool True)]) = Some (JBool True)"
proof -
  have f: "fetch_ok ''token'' ''chat'' (JNum 42) =
       FetchResponse True (JsonValue (JObj [(''ok'', JBool True)]))"
    by (simp add: fetch_ok_def)
  have p: "prop_ok (JObj [(''ok'', JBool True)]) = Some (JBool True)"
    by simp
  have v: "var_text (TG_Bot_Token env_full) = ''token''" "var_text (TG_Chat_ID env_full) = ''chat''"
    by (simp_all add: env_full_def)
  from remote_delete_success_iff [of fetch_ok "JNum 42" env_full world_empty]
  obtain v where r: "fst (deleteTelegramMessage fetch_ok (JNum 42) env_full world_empty) = Inr v"
    and iff: "truthy v \<longleftrightarrow>
          issued world_empty (snd (deleteTelegramMessage fetch_ok (JNum 42) env_full world_empty)) =
            [TGDeleteMessage ''token'' ''chat'' (JNum 42)]
          \<and> (\<exists>data ack.
                fetch_ok ''token'' ''chat'' (JNum 42) = FetchResponse True (JsonValue data)
                \<and> prop_ok data = Some ack \<and> truthy ack)"
    unfolding v by blast
  have "fst (deleteTelegramMessage fetch_ok (JNum 42) env_full world_empty) = Inr (JBool True)"
    by (simp add: deleteTelegramMessage_cases env_full_def fetch_ok_def)
  with r have "v = JBool True" by simp
  with iff r f p show ?thesis by simp
qed

subsection \<open>Object-store deletion\<close>

lemma r2_branch_cases:
  "r2_branch e fileId kvKey md w =
     (case R2_BUCKET e of
        None \<Rightarrow> (Inl ''R2 bucket is not configured.'', w)
      | Some bucket \<Rightarrow>
          if \<not> truthy (resolve_r2Key md kvKey fileId) then (Inl ''Failed to resolve R2 key.'', w)
          else
            (case bucket (resolve_r2Key md kvKey fileId) of
               Some msg \<Rightarrow>
                 (Inl msg, w\<lparr>trace := trace w @ [R2Delete (resolve_r2Key md kvKey fileId)]\<rparr>)
             | None \<Rightarrow>
                 (Inr (jsonResponse
                    [(''success'', JBool True),
                     (''message'', JStr ''Deleted from R2 and KV.''),
                     (''fileId'', JStr fileId),
                     (''r2Key'', resolve_r2Key md kvKey fileId),
                     (''kvKey'', JStr kvKey)] 200),
                  w\<lparr>kv := (kv w)(kvKey := None),
                    trace := trace w @ [R2Delete (resolve_r2Key md kvKey fileId), KVDelete kvKey]\<rparr>)))"
  by (simp add: r2_branch_def kv_delete_def Let_def split: option.splits)

text \<open>
  Claim C2. On a request classified to the object-store backend the handler first awaits
  the bucket's delete of the physical key and only then the key-value delete of the storage
  key. If the bucket's delete rejects, no key-value delete is issued, the namespace is
  left as it was, and the response is \<open>{success: false, error}\<close> with status 500. If it
  resolves, the key-value delete of the storage key follows it and the response has status
  200. When the bucket is not configured or no physical key resolves, neither delete is
  issued and the response has status 500.
\<close>

theorem object_store_delete_sequence:
  assumes kvb: "img_url e"
    and res: "getRecordWithKey (decode_fileId decodeURIComponent raw) w = ((Some record, kvKey), w1)"
    and md: "rec_metadata record = Some md"
    and cls: "isR2 (decode_fileId decodeURIComponent raw) md"
    and key: "key = resolve_r2Key md kvKey (decode_fileId decodeURIComponent raw)"
    and run: "onRequest_with step decodeURIComponent e raw w = (resp, w')"
  shows "(\<forall>bucket msg. R2_BUCKET e = Some bucket \<and> truthy key \<and> bucket key = Some msg \<longrightarrow>
            issued w w' = issued w w1 @ [R2Delete key]
            \<and> filter is_KVDelete (issued w w') = []
            \<and> kv w' = kv w
            \<and> status resp = 500
            \<and> body resp = [(''success'', JBool False), (''error'', JStr msg)])
       \<and> (\<forall>bucket. R2_BUCKET e = Some bucket \<and> truthy key \<and> bucket key = None \<longrightarrow>
            issued w w' = issued w w1 @ [R2Delete key, KVDelete kvKey]
            \<and> kv w' = (kv w)(kvKey := None)
            \<and> status resp = 200
            \<and> field resp ''success'' = Some (JBool True))
       \<and> (R2_BUCKET e = None \<or> \<not> truthy key \<longrightarrow>
            issued w w' = issued w w1
            \<and> kv w' = kv w
            \<and> status resp = 500
            \<and> field resp ''success'' = Some (JBool False))"
proof -
  let ?fileId = "decode_fileId decodeURIComponent raw"
  have t: "onRequest_try step e ?fileId w = r2_branch e ?fileId kvKey md w1"
    using onRequest_try_resolved [OF kvb res md] cls by simp
  from getRecordWithKey_trace [of ?fileId w] res
  have g: "trace w1 = trace w @ issued w w1" "\<forall>ev \<in> set (issued w w1). is_KVGet ev" "kv w1 = kv w"
    by simp_all
  have ng: "filter is_KVDelete (issued w w1) = []"
    using g(2) KVGet_not_KVDelete by (auto simp: filter_empty_conv)
  have fail: "issued w w' = issued w w1 @ [R2Delete key]
            \<and> filter is_KVDelete (issued w w') = []
            \<and> kv w' = kv w
            \<and> status resp = 500
            \<and> body resp = [(''success'', JBool False), (''error'', JStr msg)]"
    if "R2_BUCKET e = Some bucket" "truthy key" "bucket key = Some msg" for bucket msg
  proof -
    from run that have r: "resp = jsonResponse [(''success'', JBool False), (''error'', JStr msg)] 500"
      and w': "w' = w1\<lparr>trace := trace w1 @ [R2Delete key]\<rparr>"
      using key by (simp_all add: onRequest_with_def t r2_branch_cases respond_def)
    have "issued w w' = issued w w1 @ [R2Delete key]"
      by (rule issued_trans [OF g(1)]) (simp add: w')
    then show ?thesis
      by (simp add: ng r w' g(3) jsonResponse_def JSON_stringify_def)
  qed
  have ok: "issued w w' = issued w w1 @ [R2Delete key, KVDelete kvKey]
            \<and> kv w' = (kv w)(kvKey := None)
            \<and> status resp = 200
            \<and> field resp ''success'' = Some (JBool True)"
    if "R2_BUCKET e = Some bucket" "truthy key" "bucket key = None" for bucket
  proof -
    from run that have r: "resp = jsonResponse
                    [(''success'', JBool True),
                     (''message'', JStr ''Deleted from R2 and KV.''),
                     (''fileId'', JStr ?fileId),
                     (''r2Key'', key),
                     (''kvKey'', JStr kvKey)] 200"
      and w': "w' = w1\<lparr>kv := (kv w1)(kvKey := None),
                    trace := trace w1 @ [R2Delete key, KVDelete kvKey]\<rparr>"
      using key by (simp_all add: onRequest_with_def t r2_branch_cases respond_def)
    have "issued w w' = issued w w1 @ [R2Delete key, KVDelete kvKey]"
      by (rule issued_trans [OF g(1)]) (simp add: w')
    then show ?thesis
      by (simp add: r w' g(3) jsonResponse_def JSON_stringify_def field_def)
  qed
  have pre: "issued w w' = issued w w1
            \<and> kv w' = kv w
            \<and> status resp = 500
            \<and> field resp ''success'' = Some (JBool False)"
    if "R2_BUCKET e = None \<or> \<not> truthy key"
  proof -
    from run that key have "w' = w1 \<and> status resp = 500 \<and> field resp ''success'' = Some (JBool False)"
      by (auto simp: onRequest_with_def t r2_branch_cases respond_def jsonResponse_def
          JSON_stringify_def field_def split: option.splits)
    then show ?thesis by (simp add: g(3))
  qed
  from fail ok pre show ?thesis by blast
qed

lemma resolve_r2_world_r2:
  "getRecordWithKey (decode_fileId decode_plain ''r2:abc123'') world_r2 =
     ((Some (stored md_r2), ''r2:abc123''), world_r2\<lparr>trace := [KVGet ''r2:abc123'']\<rparr>)"
  by (simp add: decode_fileId_def decode_plain_def getRecordWithKey_def candidateKeys_def
      hasKnownPrefix_def prefixes_def startsWith_def getWithMetadata_def world_r2_def stored_def)

lemma isR2_abc123: "isR2 (decode_fileId decode_plain ''r2:abc123'') md_r2"
  by (simp add: isR2_def md_r2_def)

lemma resolve_r2Key_abc123:
  "resolve_r2Key md_r2 ''r2:abc123'' (decode_fileId decode_plain ''r2:abc123'') = JStr ''abc123''"
  by (simp add: resolve_r2Key_def js_or_def md_r2_def startsWith_def slice3_def)

theorem object_store_delete_sequence_witness:
  "img_url env_r2_fails
   \<and> isR2 (decode_fileId decode_plain ''r2:abc123'') md_r2
   \<and> issued world_r2 (snd (onRequest fetch_ok decode_plain env_r2_fails ''r2:abc123'' world_r2)) =
       [KVGet ''r2:abc123'', R2Delete (JStr ''abc123'')]
   \<and> kv (snd (onRequest fetch_ok decode_plain env_r2_fails ''r2:abc123'' world_r2)) = kv world_r2
   \<and> status (fst (onRequest fetch_ok decode_plain env_r2_fails ''r2:abc123'' world_r2)) = 500
   \<and> body (fst (onRequest fetch_ok decode_plain env_r2_fails ''r2:abc123'' world_r2)) =
       [(''success'', JBool False), (''error'', JStr ''bucket unavailable'')]"
proof -
  let ?run = "onRequest fetch_ok decode_plain env_r2_fails ''r2:abc123'' world_r2"
  have kvb: "img_url env_r2_fails"
    by (simp add: env_r2_fails_def)
  have md: "rec_metadata (stored md_r2) = Some md_r2"
    by (simp add: stored_def)
  have run: "onRequest_with (deleteTelegramMessage fetch_ok) decode_plain env_r2_fails
      ''r2:abc123'' world_r2 = (fst ?run, snd ?run)"
    by (simp add: onRequest_def)
  have b: "R2_BUCKET env_r2_fails = Some (\<lambda>key. Some ''bucket unavailable'')"
    by (simp add: env_r2_fails_def)
  have i1: "issued world_r2 (world_r2\<lparr>trace := [KVGet ''r2:abc123'']\<rparr>) = [KVGet ''r2:abc123'']"
    by (simp add: issued_def world_r2_def)
  note t = object_store_delete_sequence
    [OF kvb resolve_r2_world_r2 md isR2_abc123 resolve_r2Key_abc123 [symmetric] run]
  from t b have "issued world_r2 (snd ?run) = [KVGet ''r2:abc123'', R2Delete (JStr ''abc123'')]
     \<and> kv (snd ?run) = kv world_r2 \<and> status (fst ?run) = 500
     \<and> body (fst ?run) = [(''success'', JBool False), (''error'', JStr ''bucket unavailable'')]"
    by (simp add: i1)
  with kvb isR2_abc123 show ?thesis by simp
qed

subsection \<open>Not found\<close>

text \<open>
  Claim C3. When the key-value binding is configured and no candidate key of the
  identifier has a record with metadata, the response is
  \<open>{success: false, error: 'File metadata not found.'}\<close> with status 404, and the only
  calls issued are the lookups of the candidate keys: nothing is deleted in the key-value
  namespace, no delete reaches the bucket and no request reaches the Bot API.
\<close>

theorem not_found_no_mutation:
  assumes kvb: "img_url e"
    and none: "\<forall>k \<in> set (candidateKeys (decode_fileId decodeURIComponent raw)). metadata_at w k = None"
    and run: "onRequest_with step decodeURIComponent e raw w = (resp, w')"
  shows "status resp = 404
       \<and> body resp = [(''success'', JBool False), (''error'', JStr ''File metadata not found.'')]
       \<and> kv w' = kv w
       \<and> issued w w' = map KVGet (candidateKeys (decode_fileId decodeURIComponent raw))
       \<and> (\<forall>ev \<in> set (issued w w'). is_KVGet ev)"
proof -
  let ?fileId = "decode_fileId decodeURIComponent raw"
  from none have f: "find (\<lambda>k. metadata_at w k \<noteq> None) (candidateKeys ?fileId) = None"
    by (simp add: find_None_iff)
  have g: "getRecordWithKey ?fileId w =
      ((None, ?fileId), w\<lparr>trace := trace w @ map KVGet (candidateKeys ?fileId)\<rparr>)"
    unfolding getRecordWithKey_find f by simp
  from run kvb have r: "resp = not_found"
    and w': "w' = w\<lparr>trace := trace w @ map KVGet (candidateKeys ?fileId)\<rparr>"
    by (simp_all add: onRequest_with_def onRequest_try_def g respond_def)
  have i: "issued w w' = map KVGet (candidateKeys ?fileId)"
    by (simp add: w')
  show ?thesis
    by (auto simp: i r w' not_found_def jsonResponse_def JSON_stringify_def)
qed

theorem not_found_no_mutation_witness:
  "img_url env_full
   \<and> list_all (\<lambda>k. metadata_at world_empty k = None) (candidateKeys (decode_fileId decode_plain ''xyz''))
   \<and> status (fst (onRequest fetch_ok decode_plain env_full ''xyz'' world_empty)) = 404
   \<and> body (fst (onRequest fetch_ok decode_plain env_full ''xyz'' world_empty)) =
       [(''success'', JBool False), (''error'', JStr ''File metadata not found.'')]
   \<and> kv (snd (onRequest fetch_ok decode_plain env_full ''xyz'' world_empty)) = kv world_empty
   \<and> issued world_empty (snd (onRequest fetch_ok decode_plain env_full ''xyz'' world_empty)) =
       [KVGet ''img:xyz'', KVGet ''vid:xyz'', KVGet ''aud:xyz'', KVGet ''doc:xyz'',
        KVGet ''r2:xyz'', KVGet ''xyz'']"
proof -
  let ?run = "onRequest fetch_ok decode_plain env_full ''xyz'' world_empty"
  have kvb: "img_url env_full"
    by (simp add: env_full_def)
  have m: "metadata_at world_empty k = None" for k
    by (simp add: metadata_at_def getWithMetadata_def world_empty_def)
  have none: "\<forall>k \<in> set (candidateKeys (decode_fileId decode_plain ''xyz'')).
      metadata_at world_empty k = None"
    by (simp add: m)
  have c: "candidateKeys (decode_fileId decode_plain ''xyz'') =
      [''img:xyz'', ''vid:xyz'', ''aud:xyz'', ''doc:xyz'', ''r2:xyz'', ''xyz'']"
    by (simp add: candidateKeys_def hasKnownPrefix_def prefixes_def startsWith_def
        decode_fileId_def decode_plain_def)
  have run: "onRequest_with (deleteTelegramMessage fetch_ok) decode_plain env_full ''xyz''
      world_empty = (fst ?run, snd ?run)"
    by (simp add: onRequest_def)
  from not_found_no_mutation [OF kvb none run] kvb show ?thesis
    by (simp add: c m)
qed

lemma spec_physical_key_resolve:
  "spec_physical_key md kvKey fileId =
     (if truthy (resolve_r2Key md kvKey fileId) then Some (resolve_r2Key md kvKey fileId)
      else None)"
  by (simp add: spec_physical_key_def first_nonempty_def resolve_r2Key_def js_or_def)

lemma r2_branch_key:
  assumes kvb: "img_url e"
    and res: "getRecordWithKey (decode_fileId decodeURIComponent raw) w = ((Some record, kvKey), w1)"
    and md: "rec_metadata record = Some md"
    and cls: "isR2 (decode_fileId decodeURIComponent raw) md"
    and bkt: "R2_BUCKET e = Some bucket"
    and run: "onRequest_with step decodeURIComponent e raw w = (resp, w')"
  shows "case spec_physical_key md kvKey (decode_fileId decodeURIComponent raw) of
           None \<Rightarrow>
             issued w w' = issued w w1 \<and> status resp = 500
             \<and> field resp ''error'' = Some (JStr ''Failed to resolve R2 key.'')
         | Some key \<Rightarrow>
             issued w w' =
               issued w w1 @ R2Delete key # (if bucket key = None then [KVDelete kvKey] else [])"
proof -
  let ?fileId = "decode_fileId decodeURIComponent raw"
  let ?key = "resolve_r2Key md kvKey ?fileId"
  have t: "onRequest_try step e ?fileId w = r2_branch e ?fileId kvKey md w1"
    using onRequest_try_resolved [OF kvb res md] cls by simp
  from getRecordWithKey_trace [of ?fileId w] res
  have g: "trace w1 = trace w @ issued w w1"
    by simp
  show ?thesis
  proof (cases "truthy ?key")
    case False
    with run bkt have "w' = w1 \<and> status resp = 500
        \<and> field resp ''error'' = Some (JStr ''Failed to resolve R2 key.'')"
      by (auto simp: onRequest_with_def t r2_branch_cases respond_def jsonResponse_def
          JSON_stringify_def field_def)
    with False show ?thesis
      by (simp add: spec_physical_key_resolve)
  next
    case True
    with run bkt have "trace w' =
        trace w1 @ R2Delete ?key # (if bucket ?key = None then [KVDelete kvKey] else [])"
      by (auto simp: onRequest_with_def t r2_branch_cases respond_def split: option.splits)
    from issued_trans [OF g this] True show ?thesis
      by (simp add: spec_physical_key_resolve)
  qed
qed

lemma getRecordWithKey_known_prefix:
  assumes "hasKnownPrefix fileId" and "metadata_at w fileId = Some md"
  shows "getRecordWithKey fileId w =
     ((Some (fst (getWithMetadata fileId w)), fileId), w\<lparr>trace := trace w @ [KVGet fileId]\<rparr>)"
  using assms by (simp add: getRecordWithKey_find candidateKeys_def)

lemma r2_scenario:
  assumes kvb: "img_url e"
    and fid: "decode_fileId decodeURIComponent raw = ''r2:abc123''"
    and rec: "metadata_at w ''r2:abc123'' = Some md"
    and nokey: "\<not> truthy (r2Key md)"
    and bkt: "R2_BUCKET e = Some bucket" "bucket (JStr ''abc123'') = None"
    and run: "onRequest_with step decodeURIComponent e raw w = (resp, w')"
  shows "issued w w' = [KVGet ''r2:abc123'', R2Delete (JStr ''abc123''), KVDelete ''r2:abc123'']
       \<and> kv w' = (kv w)(''r2:abc123'' := None)
       \<and> status resp = 200
       \<and> field resp ''success'' = Some (JBool True)
       \<and> field resp ''r2Key'' = Some (JStr ''abc123'')"
proof -
  let ?w1 = "w\<lparr>trace := trace w @ [KVGet ''r2:abc123'']\<rparr>"
  have h: "hasKnownPrefix ''r2:abc123''"
    by (simp add: hasKnownPrefix_iff startsWith_def)
  have res: "getRecordWithKey ''r2:abc123'' w =
     ((Some (fst (getWithMetadata ''r2:abc123'' w)), ''r2:abc123''), ?w1)"
    by (rule getRecordWithKey_known_prefix [OF h rec])
  have md: "rec_metadata (fst (getWithMetadata ''r2:abc123'' w)) = Some md"
    using rec by (simp add: metadata_at_def)
  have cls: "isR2 ''r2:abc123'' md"
    by (simp add: isR2_def startsWith_def)
  have key: "resolve_r2Key md ''r2:abc123'' ''r2:abc123'' = JStr ''abc123''"
    using nokey by (simp add: resolve_r2Key_def js_or_def startsWith_def slice3_def)
  have t: "onRequest_try step e ''r2:abc123'' w = r2_branch e ''r2:abc123'' ''r2:abc123'' md ?w1"
    using onRequest_try_resolved [OF kvb res md] cls by simp
  from run have r: "resp = jsonResponse
                    [(''success'', JBool True),
                     (''message'', JStr ''Deleted from R2 and KV.''),
                     (''fileId'', JStr ''r2:abc123''),
                     (''r2Key'', JStr ''abc123''),
                     (''kvKey'', JStr ''r2:abc123'')] 200"
      and w': "w' = w\<lparr>kv := (kv w)(''r2:abc123'' := None),
           trace := trace w @ [KVGet ''r2:abc123'', R2Delete (JStr ''abc123''), KVDelete ''r2:abc123'']\<rparr>"
    using bkt by (simp_all add: onRequest_with_def fid t r2_branch_cases key respond_def)
  show ?thesis
    by (simp add: r w' issued_def jsonResponse_def JSON_stringify_def field_def)
qed

text \<open>
  Claim C5. The key the handler computes for the bucket is the first non-empty candidate
  in the specification's order: the record's \<open>r2Key\<close>; the storage key without the
  prefix \<open>r2:\<close> if it carries it; the identifier without the prefix \<open>r2:\<close> if it
  carries it and the raw identifier otherwise. On an object-store request with a configured
  bucket the handler deletes exactly this key from the bucket, and fails with
  "Failed to resolve R2 key." when no candidate is non-empty. For the identifier
  \<open>r2:abc123\<close> whose record has no \<open>r2Key\<close>, with a bucket whose delete resolves, the
  handler looks up \<open>r2:abc123\<close>, deletes \<open>abc123\<close> from the bucket, then deletes
  \<open>r2:abc123\<close> from the key-value namespace, and answers 200 with \<open>success: true\<close>.
\<close>

theorem physical_key_resolution:
  "spec_physical_key md kvKey fileId =
     (if truthy (resolve_r2Key md kvKey fileId) then Some (resolve_r2Key md kvKey fileId)
      else None)
   \<and> (img_url e
        \<and> getRecordWithKey (decode_fileId decodeURIComponent raw) w = ((Some record, kvKey), w1)
        \<and> rec_metadata record = Some md
        \<and> isR2 (decode_fileId decodeURIComponent raw) md
        \<and> R2_BUCKET e = Some bucket
        \<and> onRequest_with step decodeURIComponent e raw w = (resp, w') \<longrightarrow>
       (case spec_physical_key md kvKey (decode_fileId decodeURIComponent raw) of
           None \<Rightarrow>
             issued w w' = issued w w1 \<and> status resp = 500
             \<and> field resp ''error'' = Some (JStr ''Failed to resolve R2 key.'')
         | Some key \<Rightarrow>
             issued w w' =
               issued w w1 @ R2Delete key # (if bucket key = None then [KVDelete kvKey] else [])))
   \<and> (img_url e
        \<and> decode_fileId decodeURIComponent raw = ''r2:abc123''
        \<and> metadata_at w ''r2:abc123'' = Some md
        \<and> \<not> truthy (r2Key md)
        \<and> R2_BUCKET e = Some bucket \<and> bucket (JStr ''abc123'') = None
        \<and> onRequest_with step decodeURIComponent e raw w = (resp, w') \<longrightarrow>
       issued w w' = [KVGet ''r2:abc123'', R2Delete (JStr ''abc123''), KVDelete ''r2:abc123'']
       \<and> kv w' = (kv w)(''r2:abc123'' := None)
       \<and> status resp = 200
       \<and> field resp ''success'' = Some (JBool True)
       \<and> field resp ''r2Key'' = Some (JStr ''abc123''))"
proof (intro conjI impI)
  show "spec_physical_key md kvKey fileId =
     (if truthy (resolve_r2Key md kvKey fileId) then Some (resolve_r2Key md kvKey fileId)
      else None)"
    by (rule spec_physical_key_resolve)
next
  assume a: "img_url e
        \<and> getRecordWithKey (decode_fileId decodeURIComponent raw) w = ((Some record, kvKey), w1)
        \<and> rec_metadata record = Some md
        \<and> isR2 (decode_fileId decodeURIComponent raw) md
        \<and> R2_BUCKET e = Some bucket
        \<and> onRequest_with step decodeURIComponent e raw w = (resp, w')"
  then show "case spec_physical_key md kvKey (decode_fileId decodeURIComponent raw) of
           None \<Rightarrow>
             issued w w' = issued w w1 \<and> status resp = 500
             \<and> field resp ''error'' = Some (JStr ''Failed to resolve R2 key.'')
         | Some key \<Rightarrow>
             issued w w' =
               issued w w1 @ R2Delete key # (if bucket key = None then [KVDelete kvKey] else [])"
    using r2_branch_key [of e decodeURIComponent raw w "record" kvKey w1 md bucket step resp "w'"]
    by simp
next
  assume a: "img_url e
        \<and> decode_fileId decodeURIComponent raw = ''r2:abc123''
        \<and> metadata_at w ''r2:abc123'' = Some md
        \<and> \<not> truthy (r2Key md)
        \<and> R2_BUCKET e = Some bucket \<and> bucket (JStr ''abc123'') = None
        \<and> onRequest_with step decodeURIComponent e raw w = (resp, w')"
  then have "issued w w' = [KVGet ''r2:abc123'', R2Delete (JStr ''abc123''), KVDelete ''r2:abc123'']
       \<and> kv w' = (kv w)(''r2:abc123'' := None)
       \<and> status resp = 200
       \<and> field resp ''success'' = Some (JBool True)
       \<and> field resp ''r2Key'' = Some (JStr ''abc123'')"
    using r2_scenario [of e decodeURIComponent raw w md bucket step resp w']
    by simp
  then show "issued w w' = [KVGet ''r2:abc123'', R2Delete (JStr ''abc123''), KVDelete ''r2:abc123'']"
    and "kv w' = (kv w)(''r2:abc123'' := None)"
    and "status resp = 200"
    and "field resp ''success'' = Some (JBool True)"
    and "field resp ''r2Key'' = Some (JStr ''abc123'')"
    by simp_all
qed

theorem physical_key_resolution_witness:
  "img_url env_full
   \<and> decode_fileId decode_plain ''r2:abc123'' = ''r2:abc123''
   \<and> metadata_at world_r2 ''r2:abc123'' = Some md_r2
   \<and> \<not> truthy (r2Key md_r2)
   \<and> spec_physical_key md_r2 ''r2:abc123'' ''r2:abc123'' = Some (JStr ''abc123'')
   \<and> issued world_r2 (snd (onRequest fetch_ok decode_plain env_full ''r2:abc123'' world_r2)) =
       [KVGet ''r2:abc123'', R2Delete (JStr ''abc123''), KVDelete ''r2:abc123'']
   \<and> kv (snd (onRequest fetch_ok decode_plain env_full ''r2:abc123'' world_r2)) ''r2:abc123'' = None
   \<and> status (fst (onRequest fetch_ok decode_plain env_full ''r2:abc123'' world_r2)) = 200
   \<and> field (fst (onRequest fetch_ok decode_plain env_full ''r2:abc123'' world_r2)) ''success'' =
       Some (JBool True)
   \<and> field (fst (onRequest fetch_ok decode_plain env_full ''r2:abc123'' world_r2)) ''r2Key'' =
       Some (JStr ''abc123'')"
proof -
  let ?run = "onRequest fetch_ok decode_plain env_full ''r2:abc123'' world_r2"
  have kvb: "img_url env_full"
    by (simp add: env_full_def)
  have fid: "decode_fileId decode_plain ''r2:abc123'' = ''r2:abc123''"
    by (simp add: decode_fileId_def decode_plain_def)
  have rec: "metadata_at world_r2 ''r2:abc123'' = Some md_r2"
    by (simp add: metadata_at_def getWithMetadata_def world_r2_def stored_def)
  have nokey: "\<not> truthy (r2Key md_r2)"
    by (simp add: md_r2_def)
  have b: "R2_BUCKET env_full = Some (\<lambda>key. None)"
    by (simp add: env_full_def)
  have run: "onRequest_with (deleteTelegramMessage fetch_ok) decode_plain env_full ''r2:abc123''
      world_r2 = (fst ?run, snd ?run)"
    by (simp add: onRequest_def)
  have key: "resolve_r2Key md_r2 ''r2:abc123'' ''r2:abc123'' = JStr ''abc123''"
    using resolve_r2Key_abc123 by (simp add: fid)
  note t = physical_key_resolution [where md = md_r2 and kvKey = "''r2:abc123''"
      and fileId = "''r2:abc123''" and e = env_full and decodeURIComponent = decode_plain
      and raw = "''r2:abc123''" and w = world_r2 and bucket = "\<lambda>key. None"
      and step = "deleteTelegramMessage fetch_ok" and resp = "fst ?run" and w' = "snd ?run"]
  from t have s: "spec_physical_key md_r2 ''r2:abc123'' ''r2:abc123'' = Some (JStr ''abc123'')"
    by (simp add: key)
  from t kvb fid rec nokey b run
  have "issued world_r2 (snd ?run) =
       [KVGet ''r2:abc123'', R2Delete (JStr ''abc123''), KVDelete ''r2:abc123'']
     \<and> kv (snd ?run) = (kv world_r2)(''r2:abc123'' := None)
     \<and> status (fst ?run) = 200
     \<and> field (fst ?run) ''success'' = Some (JBool True)
     \<and> field (fst ?run) ''r2Key'' = Some (JStr ''abc123'')"
    by simp
  with kvb fid rec nokey s show ?thesis by simp
qed

subsection \<open>Classification\<close>

lemma telegram_branch_cases:
  "telegram_branch step e fileId kvKey md w =
     (let mid = telegramMessageId md;
          out = step mid e w;
          telegramDeleted =
            (if truthy mid then (case fst out of Inr result \<Rightarrow> result | Inl error \<Rightarrow> JBool False)
             else JBool False);
          telegramDeleteError =
            (if truthy mid then (case fst out of Inr result \<Rightarrow> JNull | Inl error \<Rightarrow> JStr error)
             else JNull)
      in (Inr (jsonResponse
              [(''success'', JBool True),
               (''message'', JStr (if truthy telegramDeleted
                  then ''Deleted from Telegram and KV.''
                  else ''KV metadata deleted (Telegram deletion best-effort).'')),
               (''fileId'', JStr fileId),
               (''kvKey'', JStr kvKey),
               (''telegramDeleteAttempted'', JBool (truthy mid)),
               (''telegramDeleted'', telegramDeleted),
               (''warning'', JStr (if truthy telegramDeleted
                  then ''''
                  else ''Telegram deletion failed or messageId missing, but KV metadata was forcibly deleted.'')),
               (''telegramDeleteError'', telegramDeleteError)] 200),
          kv_delete kvKey (if truthy mid then snd out else w)))"
  by (simp add: telegram_branch_def telegram_try_def Let_def split: prod.splits sum.splits)

lemma r2_branch_no_telegram_field:
  "field (fst (respond (r2_branch e fileId kvKey md w))) ''telegramDeleteAttempted'' = None
   \<and> (status (fst (respond (r2_branch e fileId kvKey md w))) = 500
      \<or> field (fst (respond (r2_branch e fileId kvKey md w))) ''r2Key'' \<noteq> None)"
  by (auto simp: r2_branch_cases respond_def jsonResponse_def JSON_stringify_def field_def
      split: option.splits)

lemma telegram_branch_fields:
  "field (fst (respond (telegram_branch step e fileId kvKey md w))) ''telegramDeleteAttempted'' =
     Some (JBool (truthy (telegramMessageId md)))
   \<and> status (fst (respond (telegram_branch step e fileId kvKey md w))) = 200
   \<and> field (fst (respond (telegram_branch step e fileId kvKey md w))) ''r2Key'' = None
   \<and> field (fst (respond (telegram_branch step e fileId kvKey md w))) ''success'' = Some (JBool True)"
  by (simp add: telegram_branch_cases respond_def jsonResponse_def JSON_stringify_def field_def
      Let_def)

text \<open>
  Claim C7. On a request whose record was resolved, the handler runs the object-store
  branch if and only if the identifier starts with \<open>r2:\<close>, or the record's \<open>storageType\<close>
  is the string \<open>r2\<close>, or its \<open>storage\<close> is the string \<open>r2\<close>; in every other case it runs
  the messaging branch. The two are told apart by the response: only the messaging branch
  reports \<open>telegramDeleteAttempted\<close>, and only the object-store branch answers 500 or
  reports an \<open>r2Key\<close>.
\<close>

theorem backend_classification:
  assumes kvb: "img_url e"
    and res: "getRecordWithKey (decode_fileId decodeURIComponent raw) w = ((Some record, kvKey), w1)"
    and md: "rec_metadata record = Some md"
    and run: "onRequest_with step decodeURIComponent e raw w = (resp, w')"
  shows "(resp, w') =
           respond
             (if startsWith (decode_fileId decodeURIComponent raw) ''r2:''
                 \<or> storageType md = JStr ''r2'' \<or> storage md = JStr ''r2''
              then r2_branch e (decode_fileId decodeURIComponent raw) kvKey md w1
              else telegram_branch step e (decode_fileId decodeURIComponent raw) kvKey md w1)
       \<and> ((field resp ''telegramDeleteAttempted'' = None) =
            (startsWith (decode_fileId decodeURIComponent raw) ''r2:''
             \<or> storageType md = JStr ''r2'' \<or> storage md = JStr ''r2''))
       \<and> ((status resp = 500 \<or> field resp ''r2Key'' \<noteq> None) =
            (startsWith (decode_fileId decodeURIComponent raw) ''r2:''
             \<or> storageType md = JStr ''r2'' \<or> storage md = JStr ''r2''))"
proof -
  let ?fileId = "decode_fileId decodeURIComponent raw"
  let ?c = "startsWith ?fileId ''r2:'' \<or> storageType md = JStr ''r2'' \<or> storage md = JStr ''r2''"
  have c: "isR2 ?fileId md = ?c"
    by (simp add: isR2_def)
  have eq: "(resp, w') = respond (if ?c then r2_branch e ?fileId kvKey md w1
       else telegram_branch step e ?fileId kvKey md w1)"
    using run onRequest_try_resolved [OF kvb res md, of step]
    by (simp add: onRequest_with_def c)
  show ?thesis
  proof (cases ?c)
    case True
    with eq have "respond (r2_branch e ?fileId kvKey md w1) = (resp, w')"
      by simp
    then have "resp = fst (respond (r2_branch e ?fileId kvKey md w1))"
      by simp
    with r2_branch_no_telegram_field [of e ?fileId kvKey md w1] eq True show ?thesis
      by simp
  next
    case False
    with eq have "respond (telegram_branch step e ?fileId kvKey md w1) = (resp, w')"
      by simp
    then have "resp = fst (respond (telegram_branch step e ?fileId kvKey md w1))"
      by simp
    with telegram_branch_fields [of step e ?fileId kvKey md w1] eq False show ?thesis
      by simp
  qed
qed

theorem backend_classification_witness:
  "img_url env_full
   \<and> \<not> startsWith (decode_fileId decode_plain ''xyz'') ''r2:''
   \<and> storageType md_telegram \<noteq> JStr ''r2'' \<and> storage md_telegram \<noteq> JStr ''r2''
   \<and> field (fst (onRequest fetch_ok decode_plain env_full ''xyz'' world_two))
         ''telegramDeleteAttempted'' \<noteq> None
   \<and> status (fst (onRequest fetch_ok decode_plain env_full ''xyz'' world_two)) \<noteq> 500
   \<and> field (fst (onRequest fetch_ok decode_plain env_full ''xyz'' world_two)) ''r2Key'' = None"
proof -
  let ?run = "onRequest fetch_ok decode_plain env_full ''xyz'' world_two"
  have kvb: "img_url env_full"
    by (simp add: env_full_def)
  have md: "rec_metadata (stored md_telegram) = Some md_telegram"
    by (simp add: stored_def)
  have run: "onRequest_with (deleteTelegramMessage fetch_ok) decode_plain env_full ''xyz''
      world_two = (fst ?run, snd ?run)"
    by (simp add: onRequest_def)
  have c: "\<not> startsWith (decode_fileId decode_plain ''xyz'') ''r2:''"
    "storageType md_telegram \<noteq> JStr ''r2''" "storage md_telegram \<noteq> JStr ''r2''"
    by (simp_all add: decode_fileId_def decode_plain_def startsWith_def md_telegram_def)
  from backend_classification [OF kvb resolve_xyz_world_two md run, THEN conjunct2] c
  have "field (fst ?run) ''telegramDeleteAttempted'' \<noteq> None
     \<and> status (fst ?run) \<noteq> 500 \<and> field (fst ?run) ''r2Key'' = None"
    by simp
  with kvb c show ?thesis by simp
qed

subsection \<open>Messaging deletion\<close>

lemma KVGet_not_TGDeleteMessage: "is_KVGet ev \<Longrightarrow> \<not> is_TGDeleteMessage ev"
  by (cases ev) simp_all

lemma missing_credentials_messaging:
  assumes kvb: "img_url e"
    and res: "getRecordWithKey (decode_fileId decodeURIComponent raw) w = ((Some record, kvKey), w1)"
    and md: "rec_metadata record = Some md"
    and cls: "\<not> isR2 (decode_fileId decodeURIComponent raw) md"
    and creds: "\<not> truthy_var (TG_Bot_Token e) \<or> \<not> truthy_var (TG_Chat_ID e)"
    and run: "onRequest fetch decodeURIComponent e raw w = (resp, w')"
  shows "issued w w' = issued w w1 @ [KVDelete kvKey]
       \<and> filter is_TGDeleteMessage (issued w w') = []
       \<and> kv w' = (kv w)(kvKey := None)
       \<and> status resp = 200
       \<and> field resp ''success'' = Some (JBool True)
       \<and> field resp ''telegramDeleted'' = Some (JBool False)
       \<and> field resp ''telegramDeleteAttempted'' = Some (JBool (truthy (telegramMessageId md)))"
proof -
  let ?fileId = "decode_fileId decodeURIComponent raw"
  let ?step = "deleteTelegramMessage fetch"
  have t: "onRequest_try ?step e ?fileId w = telegram_branch ?step e ?fileId kvKey md w1"
    using onRequest_try_resolved [OF kvb res md] cls by simp
  have s: "?step (telegramMessageId md) e w1 = (Inr (JBool False), w1)"
    using creds by (auto simp: deleteTelegramMessage_cases)
  from getRecordWithKey_trace [of ?fileId w] res
  have g: "trace w1 = trace w @ issued w w1" "\<forall>ev \<in> set (issued w w1). is_KVGet ev" "kv w1 = kv w"
    by simp_all
  have ng: "filter is_TGDeleteMessage (issued w w1) = []"
    using g(2) KVGet_not_TGDeleteMessage by (auto simp: filter_empty_conv)
  from run have w': "w' = kv_delete kvKey w1"
    and r: "resp = fst (respond (telegram_branch ?step e ?fileId kvKey md w1))"
    by (simp_all add: onRequest_def onRequest_with_def t telegram_branch_cases s respond_def
        Let_def cong: if_cong)
  have i: "issued w w' = issued w w1 @ [KVDelete kvKey]"
    by (rule issued_trans [OF g(1)]) (simp add: w' kv_delete_def)
  have f: "field resp ''telegramDeleted'' = Some (JBool False)"
    by (simp add: r telegram_branch_cases s respond_def Let_def jsonResponse_def
        JSON_stringify_def field_def cong: if_cong)
  from telegram_branch_fields [of ?step e ?fileId kvKey md w1] i ng f show ?thesis
    by (simp add: r [symmetric] w' kv_delete_def g(3))
qed

lemma missing_kv_binding:
  assumes "\<not> img_url e"
  shows "status (fst (onRequest_with step decodeURIComponent e raw w)) = 500
       \<and> field (fst (onRequest_with step decodeURIComponent e raw w)) ''success'' = Some (JBool False)
       \<and> snd (onRequest_with step decodeURIComponent e raw w) = w"
  using assms
  by (simp add: onRequest_with_def onRequest_try_def respond_def jsonResponse_def
      JSON_stringify_def field_def)

lemma missing_bucket_binding:
  assumes kvb: "img_url e"
    and res: "getRecordWithKey (decode_fileId decodeURIComponent raw) w = ((Some record, kvKey), w1)"
    and md: "rec_metadata record = Some md"
    and cls: "isR2 (decode_fileId decodeURIComponent raw) md"
    and bkt: "R2_BUCKET e = None"
  shows "status (fst (onRequest_with step decodeURIComponent e raw w)) = 500
       \<and> field (fst (onRequest_with step decodeURIComponent e raw w)) ''success'' = Some (JBool False)
       \<and> snd (onRequest_with step decodeURIComponent e raw w) = w1"
  using onRequest_try_resolved [OF kvb res md, of step] cls bkt
  by (simp add: onRequest_with_def r2_branch_cases respond_def jsonResponse_def
      JSON_stringify_def field_def)

text \<open>
  Claim C10. On a request classified to the messaging backend, when the bot token or the
  chat identifier is unset or empty, the handler makes no request to the Bot API, deletes
  the storage key from the key-value namespace as its only mutation, and answers 200 with
  \<open>success: true\<close>, \<open>telegramDeleted: false\<close> and \<open>telegramDeleteAttempted\<close> true exactly
  when the record has a message reference. In contrast, a request without the key-value
  binding is answered 500 with nothing issued, and an object-store request without the
  bucket binding is answered 500 with no delete issued.
\<close>

theorem missing_credentials_not_fatal:
  "(img_url e
      \<and> getRecordWithKey (decode_fileId decodeURIComponent raw) w = ((Some record, kvKey), w1)
      \<and> rec_metadata record = Some md
      \<and> \<not> isR2 (decode_fileId decodeURIComponent raw) md
      \<and> (\<not> truthy_var (TG_Bot_Token e) \<or> \<not> truthy_var (TG_Chat_ID e))
      \<and> onRequest fetch decodeURIComponent e raw w = (resp, w') \<longrightarrow>
     issued w w' = issued w w1 @ [KVDelete kvKey]
     \<and> filter is_TGDeleteMessage (issued w w') = []
     \<and> kv w' = (kv w)(kvKey := None)
     \<and> status resp = 200
     \<and> field resp ''success'' = Some (JBool True)
     \<and> field resp ''telegramDeleted'' = Some (JBool False)
     \<and> field resp ''telegramDeleteAttempted'' = Some (JBool (truthy (telegramMessageId md))))
   \<and> (\<not> img_url e \<longrightarrow>
     status (fst (onRequest fetch decodeURIComponent e raw w)) = 500
     \<and> field (fst (onRequest fetch decodeURIComponent e raw w)) ''success'' = Some (JBool False)
     \<and> snd (onRequest fetch decodeURIComponent e raw w) = w)
   \<and> (img_url e
      \<and> getRecordWithKey (decode_fileId decodeURIComponent raw) w = ((Some record, kvKey), w1)
      \<and> rec_metadata record = Some md
      \<and> isR2 (decode_fileId decodeURIComponent raw) md
      \<and> R2_BUCKET e = None \<longrightarrow>
     status (fst (onRequest fetch decodeURIComponent e raw w)) = 500
     \<and> field (fst (onRequest fetch decodeURIComponent e raw w)) ''success'' = Some (JBool False)
     \<and> snd (onRequest fetch decodeURIComponent e raw w) = w1)"
proof -
  have a: "issued w w' = issued w w1 @ [KVDelete kvKey]
     \<and> filter is_TGDeleteMessage (issued w w') = []
     \<and> kv w' = (kv w)(kvKey := None)
     \<and> status resp = 200
     \<and> field resp ''success'' = Some (JBool True)
     \<and> field resp ''telegramDeleted'' = Some (JBool False)
     \<and> field resp ''telegramDeleteAttempted'' = Some (JBool (truthy (telegramMessageId md)))"
    if "img_url e
      \<and> getRecordWithKey (decode_fileId decodeURIComponent raw) w = ((Some record, kvKey), w1)
      \<and> rec_metadata record = Some md
      \<and> \<not> isR2 (decode_fileId decodeURIComponent raw) md
      \<and> (\<not> truthy_var (TG_Bot_Token e) \<or> \<not> truthy_var (TG_Chat_ID e))
      \<and> onRequest fetch decodeURIComponent e raw w = (resp, w')"
    using that
      missing_credentials_messaging [of e decodeURIComponent raw w "record" kvKey w1 md fetch resp "w'"]
    by blast
  have b: "status (fst (onRequest fetch decodeURIComponent e raw w)) = 500
     \<and> field (fst (onRequest fetch decodeURIComponent e raw w)) ''success'' = Some (JBool False)
     \<and> snd (onRequest fetch decodeURIComponent e raw w) = w"
    if "\<not> img_url e"
    using missing_kv_binding [OF that] by (simp add: onRequest_def)
  have c: "status (fst (onRequest fetch decodeURIComponent e raw w)) = 500
     \<and> field (fst (onRequest fetch decodeURIComponent e raw w)) ''success'' = Some (JBool False)
     \<and> snd (onRequest fetch decodeURIComponent e raw w) = w1"
    if "img_url e
      \<and> getRecordWithKey (decode_fileId decodeURIComponent raw) w = ((Some record, kvKey), w1)
      \<and> rec_metadata record = Some md
      \<and> isR2 (decode_fileId decodeURIComponent raw) md
      \<and> R2_BUCKET e = None"
    using that
      missing_bucket_binding [of e decodeURIComponent raw w "record" kvKey w1 md "deleteTelegramMessage fetch"]
    by (simp add: onRequest_def)
  from a b c show ?thesis by blast
qed

theorem missing_credentials_not_fatal_witness:
  "img_url env_no_token
   \<and> \<not> isR2 (decode_fileId decode_plain ''xyz'') md_telegram
   \<and> \<not> truthy_var (TG_Bot_Token env_no_token)
   \<and> issued world_two (snd (onRequest fetch_ok decode_plain env_no_token ''xyz'' world_two)) =
       [KVGet ''img:xyz'', KVDelete ''img:xyz'']
   \<and> kv (snd (onRequest fetch_ok decode_plain env_no_token ''xyz'' world_two)) ''img:xyz'' = None
   \<and> status (fst (onRequest fetch_ok decode_plain env_no_token ''xyz'' world_two)) = 200
   \<and> field (fst (onRequest fetch_ok decode_plain env_no_token ''xyz'' world_two)) ''success'' =
       Some (JBool True)
   \<and> field (fst (onRequest fetch_ok decode_plain env_no_token ''xyz'' world_two)) ''telegramDeleted'' =
       Some (JBool False)
   \<and> field (fst (onRequest fetch_ok decode_plain env_no_token ''xyz'' world_two))
        ''telegramDeleteAttempted'' = Some (JBool True)"
proof -
  let ?run = "onRequest fetch_ok decode_plain env_no_token ''xyz'' world_two"
  have kvb: "img_url env_no_token"
    by (simp add: env_no_token_def)
  have md: "rec_metadata (stored md_telegram) = Some md_telegram"
    by (simp add: stored_def)
  have creds: "\<not> truthy_var (TG_Bot_Token env_no_token)"
    by (simp add: env_no_token_def)
  have run: "?run = (fst ?run, snd ?run)"
    by simp
  have i1: "issued world_two (world_two\<lparr>trace := [KVGet ''img:xyz'']\<rparr>) = [KVGet ''img:xyz'']"
    by (simp add: issued_def world_two_def)
  note t = missing_credentials_not_fatal [of env_no_token decode_plain "''xyz''" world_two
      "stored md_telegram" "''img:xyz''" "world_two\<lparr>trace := [KVGet ''img:xyz'']\<rparr>"
      md_telegram fetch_ok "fst ?run" "snd ?run", THEN conjunct1]
  from t kvb resolve_xyz_world_two md not_isR2_xyz creds run
  have "issued world_two (snd ?run) =
       issued world_two (world_two\<lparr>trace := [KVGet ''img:xyz'']\<rparr>) @ [KVDelete ''img:xyz'']
     \<and> kv (snd ?run) = (kv world_two)(''img:xyz'' := None)
     \<and> status (fst ?run) = 200
     \<and> field (fst ?run) ''success'' = Some (JBool True)
     \<and> field (fst ?run) ''telegramDeleted'' = Some (JBool False)
     \<and> field (fst ?run) ''telegramDeleteAttempted'' = Some (JBool (truthy (telegramMessageId md_telegram)))"
    by simp
  then have "issued world_two (snd ?run) = [KVGet ''img:xyz'', KVDelete ''img:xyz'']
     \<and> kv (snd ?run) ''img:xyz'' = None
     \<and> status (fst ?run) = 200
     \<and> field (fst ?run) ''success'' = Some (JBool True)
     \<and> field (fst ?run) ''telegramDeleted'' = Some (JBool False)
     \<and> field (fst ?run) ''telegramDeleteAttempted'' = Some (JBool True)"
    by (simp add: i1 md_telegram_def)
  with kvb not_isR2_xyz creds show ?thesis by simp
qed

lemma remote_delete_returns:
  "\<exists>v. fst (deleteTelegramMessage fetch messageId e w) = Inr v
     \<and> kv (snd (deleteTelegramMessage fetch messageId e w)) = kv w"
  by (simp add: deleteTelegramMessage_cases)

text \<open>
  What the messaging branch reports, for the deployed step: the response is a 200 with
  \<open>success: true\<close>; the warning is non-empty exactly when the step's result is falsy; the
  member \<open>telegramDeleted\<close> is the step's result itself and is left out of the body when
  that result is \<open>undefined\<close>.
\<close>

lemma messaging_report:
  assumes kvb: "img_url e"
    and res: "getRecordWithKey (decode_fileId decodeURIComponent raw) w = ((Some record, kvKey), w1)"
    and md: "rec_metadata record = Some md"
    and cls: "\<not> isR2 (decode_fileId decodeURIComponent raw) md"
    and d: "d = (if truthy (telegramMessageId md)
                 then projr (fst (deleteTelegramMessage fetch (telegramMessageId md) e w1))
                 else JBool False)"
    and run: "onRequest fetch decodeURIComponent e raw w = (resp, w')"
  shows "status resp = 200
       \<and> field resp ''success'' = Some (JBool True)
       \<and> field resp ''telegramDeleteAttempted'' = Some (JBool (truthy (telegramMessageId md)))
       \<and> field resp ''telegramDeleted'' = (if d = JUndefined then None else Some d)
       \<and> field resp ''warning'' = Some (JStr (if truthy d then ''''
            else ''Telegram deletion failed or messageId missing, but KV metadata was forcibly deleted.''))
       \<and> kv w' = (kv w)(kvKey := None)"
proof -
  let ?fileId = "decode_fileId decodeURIComponent raw"
  let ?step = "deleteTelegramMessage fetch"
  let ?mid = "telegramMessageId md"
  have t: "onRequest_try ?step e ?fileId w = telegram_branch ?step e ?fileId kvKey md w1"
    using onRequest_try_resolved [OF kvb res md] cls by simp
  obtain v where v: "fst (?step ?mid e w1) = Inr v" and k: "kv (snd (?step ?mid e w1)) = kv w1"
    using remote_delete_returns [of fetch ?mid e w1] by blast
  have d': "d = (if truthy ?mid then v else JBool False)"
    by (simp add: d v)
  from getRecordWithKey_trace [of ?fileId w] res
  have g: "kv w1 = kv w"
    by simp
  from run have r: "resp = fst (respond (telegram_branch ?step e ?fileId kvKey md w1))"
    and w': "w' = kv_delete kvKey (if truthy ?mid then snd (?step ?mid e w1) else w1)"
    by (simp_all add: onRequest_def onRequest_with_def t telegram_branch_cases respond_def Let_def)
  have f: "field resp ''telegramDeleted'' = (if d = JUndefined then None else Some d)"
    by (simp add: r telegram_branch_cases v d' respond_def Let_def jsonResponse_def
        JSON_stringify_def field_def)
  have wn: "field resp ''warning'' = Some (JStr (if truthy d then ''''
            else ''Telegram deletion failed or messageId missing, but KV metadata was forcibly deleted.''))"
    by (simp add: r telegram_branch_cases v d' respond_def Let_def jsonResponse_def
        JSON_stringify_def field_def)
  from telegram_branch_fields [of ?step e ?fileId kvKey md w1] f wn show ?thesis
    by (simp add: r [symmetric] w' kv_delete_def g k)
qed

lemma no_ack_step:
  "deleteTelegramMessage fetch_no_ack (JNum 42) env_full (world_two\<lparr>trace := [KVGet ''img:xyz'']\<rparr>) =
     (Inr JUndefined,
      world_two\<lparr>trace := [KVGet ''img:xyz'', TGDeleteMessage ''token'' ''chat'' (JNum 42)]\<rparr>)"
  by (simp add: deleteTelegramMessage_cases env_full_def fetch_no_ack_def world_two_def)

text \<open>
  Claim C9, run on a failing input. The record under \<open>img:xyz\<close> refers to message 42, the
  credentials are set, and the Bot API answers 200 with the body \<open>{}\<close>.
  \<open>response.ok && data.ok\<close> is then \<open>undefined\<close>: the remote deletion did not succeed and
  the warning is set, but \<open>JSON.stringify\<close> leaves \<open>telegramDeleted\<close> out of the body,
  where the claim has \<open>telegramDeleted = false\<close>.
\<close>

theorem missing_ack_omits_telegramDeleted:
  "fetch_no_ack ''token'' ''chat'' (JNum 42) = FetchResponse True (JsonValue (JObj []))
   \<and> fst (onRequest fetch_no_ack decode_plain env_full ''xyz'' world_two) =
      \<lparr>status = 200,
       body =
         [(''success'', JBool True),
          (''message'', JStr ''KV metadata deleted (Telegram deletion best-effort).''),
          (''fileId'', JStr ''xyz''),
          (''kvKey'', JStr ''img:xyz''),
          (''telegramDeleteAttempted'', JBool True),
          (''warning'',
           JStr ''Telegram deletion failed or messageId missing, but KV metadata was forcibly deleted.''),
          (''telegramDeleteError'', JNull)]\<rparr>
   \<and> field (fst (onRequest fetch_no_ack decode_plain env_full ''xyz'' world_two)) ''telegramDeleted'' = None
   \<and> issued world_two (snd (onRequest fetch_no_ack decode_plain env_full ''xyz'' world_two)) =
       [KVGet ''img:xyz'', TGDeleteMessage ''token'' ''chat'' (JNum 42), KVDelete ''img:xyz'']"
proof -
  have kvb: "img_url env_full"
    by (simp add: env_full_def)
  have md: "rec_metadata (stored md_telegram) = Some md_telegram"
    by (simp add: stored_def)
  have m: "telegramMessageId md_telegram = JNum 42"
    by (simp add: md_telegram_def)
  have t: "onRequest fetch_no_ack decode_plain env_full ''xyz'' world_two =
      respond (telegram_branch (deleteTelegramMessage fetch_no_ack) env_full
        (decode_fileId decode_plain ''xyz'') ''img:xyz'' md_telegram
        (world_two\<lparr>trace := [KVGet ''img:xyz'']\<rparr>))"
    using onRequest_try_resolved [OF kvb resolve_xyz_world_two md] not_isR2_xyz
    by (simp add: onRequest_def onRequest_with_def)
  have f: "decode_fileId decode_plain ''xyz'' = ''xyz''"
    by (simp add: decode_fileId_def decode_plain_def)
  have r: "onRequest fetch_no_ack decode_plain env_full ''xyz'' world_two =
      (\<lparr>status = 200,
        body =
          [(''success'', JBool True),
           (''message'', JStr ''KV metadata deleted (Telegram deletion best-effort).''),
           (''fileId'', JStr ''xyz''),
           (''kvKey'', JStr ''img:xyz''),
           (''telegramDeleteAttempted'', JBool True),
           (''warning'',
            JStr ''Telegram deletion failed or messageId missing, but KV metadata was forcibly deleted.''),
           (''telegramDeleteError'', JNull)]\<rparr>,
       kv_delete ''img:xyz''
         (world_two\<lparr>trace := [KVGet ''img:xyz'', TGDeleteMessage ''token'' ''chat'' (JNum 42)]\<rparr>))"
    by (simp add: t f telegram_branch_cases m no_ack_step respond_def jsonResponse_def
        JSON_stringify_def)
  show ?thesis
    unfolding r by (simp add: field_def kv_delete_def issued_def world_two_def fetch_no_ack_def)
qed

lemma network_error_step:
  "deleteTelegramMessage fetch_throws (JNum 42) env_full (world_two\<lparr>trace := [KVGet ''img:xyz'']\<rparr>) =
     (Inr (JBool False),
      world_two\<lparr>trace := [KVGet ''img:xyz'', TGDeleteMessage ''token'' ''chat'' (JNum 42)]\<rparr>)"
  by (simp add: deleteTelegramMessage_cases env_full_def fetch_throws_def world_two_def)

text \<open>
  The scenario of a network error: the record refers to message 42 and \<open>fetch\<close> throws.
  The response is a 200 with \<open>telegramDeleteAttempted: true\<close>, \<open>telegramDeleted: false\<close>
  and the warning, and the storage key is deleted after the attempt.
\<close>

lemma network_error_scenario:
  "fst (onRequest fetch_throws decode_plain env_full ''xyz'' world_two) =
      \<lparr>status = 200,
       body =
         [(''success'', JBool True),
          (''message'', JStr ''KV metadata deleted (Telegram deletion best-effort).''),
          (''fileId'', JStr ''xyz''),
          (''kvKey'', JStr ''img:xyz''),
          (''telegramDeleteAttempted'', JBool True),
          (''telegramDeleted'', JBool False),
          (''warning'',
           JStr ''Telegram deletion failed or messageId missing, but KV metadata was forcibly deleted.''),
          (''telegramDeleteError'', JNull)]\<rparr>
   \<and> issued world_two (snd (onRequest fetch_throws decode_plain env_full ''xyz'' world_two)) =
       [KVGet ''img:xyz'', TGDeleteMessage ''token'' ''chat'' (JNum 42), KVDelete ''img:xyz'']
   \<and> kv (snd (onRequest fetch_throws decode_plain env_full ''xyz'' world_two)) ''img:xyz'' = None"
proof -
  have kvb: "img_url env_full"
    by (simp add: env_full_def)
  have md: "rec_metadata (stored md_telegram) = Some md_telegram"
    by (simp add: stored_def)
  have m: "telegramMessageId md_telegram = JNum 42"
    by (simp add: md_telegram_def)
  have t: "onRequest fetch_throws decode_plain env_full ''xyz'' world_two =
      respond (telegram_branch (deleteTelegramMessage fetch_throws) env_full
        (decode_fileId decode_plain ''xyz'') ''img:xyz'' md_telegram
        (world_two\<lparr>trace := [KVGet ''img:xyz'']\<rparr>))"
    using onRequest_try_resolved [OF kvb resolve_xyz_world_two md] not_isR2_xyz
    by (simp add: onRequest_def onRequest_with_def)
  have f: "decode_fileId decode_plain ''xyz'' = ''xyz''"
    by (simp add: decode_fileId_def decode_plain_def)
  have r: "onRequest fetch_throws decode_plain env_full ''xyz'' world_two =
      (\<lparr>status = 200,
        body =
          [(''success'', JBool True),
           (''message'', JStr ''KV metadata deleted (Telegram deletion best-effort).''),
           (''fileId'', JStr ''xyz''),
           (''kvKey'', JStr ''img:xyz''),
           (''telegramDeleteAttempted'', JBool True),
           (''telegramDeleted'', JBool False),
           (''warning'',
            JStr ''Telegram deletion failed or messageId missing, but KV metadata was forcibly deleted.''),
           (''telegramDeleteError'', JNull)]\<rparr>,
       kv_delete ''img:xyz''
         (world_two\<lparr>trace := [KVGet ''img:xyz'', TGDeleteMessage ''token'' ''chat'' (JNum 42)]\<rparr>))"
    by (simp add: t f telegram_branch_cases m network_error_step respond_def jsonResponse_def
        JSON_stringify_def)
  show ?thesis
    unfolding r by (simp add: kv_delete_def issued_def world_two_def)
qed

text \<open>
  The scenario of a record without message reference: no request reaches the Bot API, the
  response is a 200 with \<open>telegramDeleteAttempted: false\<close>, and the storage key is deleted.
\<close>

lemma no_reference_scenario:
  "fst (onRequest fetch_ok decode_plain env_full ''doc:xyz'' world_two) =
      \<lparr>status = 200,
       body =
         [(''success'', JBool True),
          (''message'', JStr ''KV metadata deleted (Telegram deletion best-effort).''),
          (''fileId'', JStr ''doc:xyz''),
          (''kvKey'', JStr ''doc:xyz''),
          (''telegramDeleteAttempted'', JBool False),
          (''telegramDeleted'', JBool False),
          (''warning'',
           JStr ''Telegram deletion failed or messageId missing, but KV metadata was forcibly deleted.''),
          (''telegramDeleteError'', JNull)]\<rparr>
   \<and> issued world_two (snd (onRequest fetch_ok decode_plain env_full ''doc:xyz'' world_two)) =
       [KVGet ''doc:xyz'', KVDelete ''doc:xyz'']
   \<and> kv (snd (onRequest fetch_ok decode_plain env_full ''doc:xyz'' world_two)) ''doc:xyz'' = None"
proof -
  have kvb: "img_url env_full"
    by (simp add: env_full_def)
  have md: "rec_metadata (stored md_plain) = Some md_plain"
    by (simp add: stored_def)
  have f: "decode_fileId decode_plain ''doc:xyz'' = ''doc:xyz''"
    by (simp add: decode_fileId_def decode_plain_def)
  have res: "getRecordWithKey (decode_fileId decode_plain ''doc:xyz'') world_two =
     ((Some (stored md_plain), ''doc:xyz''), world_two\<lparr>trace := [KVGet ''doc:xyz'']\<rparr>)"
    by (simp add: f getRecordWithKey_def candidateKeys_def hasKnownPrefix_def prefixes_def
        startsWith_def getWithMetadata_def world_two_def stored_def)
  have cls: "\<not> isR2 (decode_fileId decode_plain ''doc:xyz'') md_plain"
    by (simp add: f isR2_def startsWith_def md_plain_def)
  have m: "telegramMessageId md_plain = JUndefined"
    by (simp add: md_plain_def)
  have t: "onRequest fetch_ok decode_plain env_full ''doc:xyz'' world_two =
      respond (telegram_branch (deleteTelegramMessage fetch_ok) env_full ''doc:xyz'' ''doc:xyz''
        md_plain (world_two\<lparr>trace := [KVGet ''doc:xyz'']\<rparr>))"
    using onRequest_try_resolved [OF kvb res md] cls
    by (simp add: onRequest_def onRequest_with_def f)
  have r: "onRequest fetch_ok decode_plain env_full ''doc:xyz'' world_two =
      (\<lparr>status = 200,
        body =
          [(''success'', JBool True),
           (''message'', JStr ''KV metadata deleted (Telegram deletion best-effort).''),
           (''fileId'', JStr ''doc:xyz''),
           (''kvKey'', JStr ''doc:xyz''),
           (''telegramDeleteAttempted'', JBool False),
           (''telegramDeleted'', JBool False),
           (''warning'',
            JStr ''Telegram deletion failed or messageId missing, but KV metadata was forcibly deleted.''),
           (''telegramDeleteError'', JNull)]\<rparr>,
       kv_delete ''doc:xyz'' (world_two\<lparr>trace := [KVGet ''doc:xyz'']\<rparr>))"
    by (simp add: t telegram_branch_cases m respond_def jsonResponse_def JSON_stringify_def Let_def)
  show ?thesis
    unfolding r by (simp add: kv_delete_def issued_def world_two_def)
qed

subsection \<open>The metadata delete follows the remote step\<close>

text \<open>
  Claim C1. On a request classified to the messaging backend, whatever the remote-deletion
  step does (it is skipped when the record has no message reference; otherwise it returns
  a falsy or a truthy result, or throws), the handler issues the delete of the resolved
  storage key as its last call, after the step has completed, and this is the only
  key-value delete of the request; the step may issue any calls of its own other than
  key-value deletes. For the deployed step \<open>deleteTelegramMessage\<close> and every behaviour of
  \<open>fetch\<close>, the calls of the request are the lookups, then at most the one Bot API
  request, then the delete of the storage key.
\<close>

theorem metadata_deleted_once_after_remote:
  assumes kvb: "img_url e"
    and res: "getRecordWithKey (decode_fileId decodeURIComponent raw) w = ((Some record, kvKey), w1)"
    and md: "rec_metadata record = Some md"
    and cls: "\<not> isR2 (decode_fileId decodeURIComponent raw) md"
  shows "(\<forall>step outcome ws evs resp w'.
            step (telegramMessageId md) e w1 = (outcome, ws)
            \<and> trace ws = trace w1 @ evs \<and> (\<forall>ev \<in> set evs. \<not> is_KVDelete ev)
            \<and> onRequest_with step decodeURIComponent e raw w = (resp, w') \<longrightarrow>
              trace w' = trace (if truthy (telegramMessageId md) then ws else w1) @ [KVDelete kvKey]
              \<and> kv w' = (kv (if truthy (telegramMessageId md) then ws else w1))(kvKey := None)
              \<and> issued w w' =
                  issued w w1 @ (if truthy (telegramMessageId md) then evs else [])
                    @ [KVDelete kvKey]
              \<and> filter is_KVDelete (issued w w') = [KVDelete kvKey])
       \<and> (\<forall>fetch resp w'.
            onRequest fetch decodeURIComponent e raw w = (resp, w') \<longrightarrow>
              issued w w' =
                issued w w1
                  @ (if truthy (telegramMessageId md) \<and> truthy_var (TG_Bot_Token e)
                        \<and> truthy_var (TG_Chat_ID e)
                     then [TGDeleteMessage (var_text (TG_Bot_Token e)) (var_text (TG_Chat_ID e))
                             (telegramMessageId md)]
                     else [])
                  @ [KVDelete kvKey]
              \<and> filter is_KVDelete (issued w w') = [KVDelete kvKey]
              \<and> kv w' = (kv w)(kvKey := None))"
proof (intro conjI allI impI)
  fix step outcome ws evs resp w'
  assume a: "step (telegramMessageId md) e w1 = (outcome, ws)
            \<and> trace ws = trace w1 @ evs \<and> (\<forall>ev \<in> set evs. \<not> is_KVDelete ev)
            \<and> onRequest_with step decodeURIComponent e raw w = (resp, w')"
  then have t: "trace w' = trace (if truthy (telegramMessageId md) then ws else w1) @ [KVDelete kvKey]
              \<and> kv w' = (kv (if truthy (telegramMessageId md) then ws else w1))(kvKey := None)
              \<and> issued w w' =
                  issued w w1 @ (if truthy (telegramMessageId md) then evs else [])
                    @ [KVDelete kvKey]
              \<and> filter is_KVDelete (issued w w') = [KVDelete kvKey]"
    by (intro telegram_path_trace [OF kvb res md cls, of step outcome ws evs resp w']) simp_all
  from t show "trace w' = trace (if truthy (telegramMessageId md) then ws else w1) @ [KVDelete kvKey]"
    by blast
  from t show "kv w' = (kv (if truthy (telegramMessageId md) then ws else w1))(kvKey := None)"
    by blast
  from t show "issued w w' =
      issued w w1 @ (if truthy (telegramMessageId md) then evs else []) @ [KVDelete kvKey]"
    by blast
  from t show "filter is_KVDelete (issued w w') = [KVDelete kvKey]"
    by blast
next
  fix fetch resp w'
  assume run: "onRequest fetch decodeURIComponent e raw w = (resp, w')"
  let ?mid = "telegramMessageId md"
  let ?c = "truthy ?mid \<and> truthy_var (TG_Bot_Token e) \<and> truthy_var (TG_Chat_ID e)"
  let ?evs = "if ?c then [TGDeleteMessage (var_text (TG_Bot_Token e)) (var_text (TG_Chat_ID e)) ?mid]
              else []"
  let ?ws = "snd (deleteTelegramMessage fetch ?mid e w1)"
  have stp: "deleteTelegramMessage fetch ?mid e w1 =
      (fst (deleteTelegramMessage fetch ?mid e w1), ?ws)"
    by simp
  have tr: "trace ?ws = trace w1 @ ?evs"
    by (simp add: deleteTelegramMessage_cases)
  have k: "kv ?ws = kv w1"
    by (simp add: deleteTelegramMessage_cases)
  have nk: "\<forall>ev \<in> set ?evs. \<not> is_KVDelete ev"
    by simp
  have run': "onRequest_with (deleteTelegramMessage fetch) decodeURIComponent e raw w = (resp, w')"
    using run by (simp add: onRequest_def)
  from getRecordWithKey_trace [of "decode_fileId decodeURIComponent raw" w] res
  have g: "kv w1 = kv w"
    by simp
  note t = telegram_path_trace [OF kvb res md cls stp tr nk run']
  from t have i: "issued w w' = issued w w1 @ (if truthy ?mid then ?evs else []) @ [KVDelete kvKey]"
    by blast
  then show "issued w w' = issued w w1 @ ?evs @ [KVDelete kvKey]"
    by (simp split: if_splits)
  from t show "filter is_KVDelete (issued w w') = [KVDelete kvKey]"
    by blast
  from t have "kv w' = (kv (if truthy ?mid then ?ws else w1))(kvKey := None)"
    by blast
  then show "kv w' = (kv w)(kvKey := None)"
    by (simp add: k g split: if_splits)
qed

theorem metadata_deleted_once_after_remote_witness:
  "img_url env_full
   \<and> \<not> isR2 (decode_fileId decode_plain ''xyz'') md_telegram
   \<and> step_throws (telegramMessageId md_telegram) env_full (world_two\<lparr>trace := [KVGet ''img:xyz'']\<rparr>)
       = (Inl ''step failed'', world_two\<lparr>trace := [KVGet ''img:xyz'']\<rparr>)
   \<and> issued world_two (snd (onRequest_with step_throws decode_plain env_full ''xyz'' world_two))
       = [KVGet ''img:xyz'', KVDelete ''img:xyz'']
   \<and> filter is_KVDelete
        (issued world_two (snd (onRequest_with step_throws decode_plain env_full ''xyz'' world_two)))
       = [KVDelete ''img:xyz'']
   \<and> issued world_two (snd (onRequest fetch_throws decode_plain env_full ''xyz'' world_two))
       = [KVGet ''img:xyz'', TGDeleteMessage ''token'' ''chat'' (JNum 42), KVDelete ''img:xyz'']
   \<and> filter is_KVDelete
        (issued world_two (snd (onRequest fetch_throws decode_plain env_full ''xyz'' world_two)))
       = [KVDelete ''img:xyz'']
   \<and> kv (snd (onRequest fetch_throws decode_plain env_full ''xyz'' world_two)) ''img:xyz'' = None"
proof -
  let ?w1 = "world_two\<lparr>trace := [KVGet ''img:xyz'']\<rparr>"
  let ?gen = "onRequest_with step_throws decode_plain env_full ''xyz'' world_two"
  let ?run = "onRequest fetch_throws decode_plain env_full ''xyz'' world_two"
  have kvb: "img_url env_full"
    by (simp add: env_full_def)
  have md: "rec_metadata (stored md_telegram) = Some md_telegram"
    by (simp add: stored_def)
  have stp: "step_throws (telegramMessageId md_telegram) env_full ?w1 = (Inl ''step failed'', ?w1)"
    by (simp add: step_throws_def)
  have i1: "issued world_two ?w1 = [KVGet ''img:xyz'']"
    by (simp add: issued_def world_two_def)
  have v: "truthy (telegramMessageId md_telegram)" "telegramMessageId md_telegram = JNum 42"
    "truthy_var (TG_Bot_Token env_full)" "truthy_var (TG_Chat_ID env_full)"
    "var_text (TG_Bot_Token env_full) = ''token''" "var_text (TG_Chat_ID env_full) = ''chat''"
    by (simp_all add: md_telegram_def env_full_def)
  note t = metadata_deleted_once_after_remote [OF kvb resolve_xyz_world_two md not_isR2_xyz]
  from t [THEN conjunct1, rule_format, of step_throws "Inl ''step failed''" ?w1 "[]" "fst ?gen" "snd ?gen"]
    stp
  have a: "issued world_two (snd ?gen) = [KVGet ''img:xyz'', KVDelete ''img:xyz'']
      \<and> filter is_KVDelete (issued world_two (snd ?gen)) = [KVDelete ''img:xyz'']"
    by (simp add: i1 v)
  from t [THEN conjunct2, rule_format, of fetch_throws "fst ?run" "snd ?run"]
  have b: "issued world_two (snd ?run) =
        [KVGet ''img:xyz'', TGDeleteMessage ''token'' ''chat'' (JNum 42), KVDelete ''img:xyz'']
      \<and> filter is_KVDelete (issued world_two (snd ?run)) = [KVDelete ''img:xyz'']
      \<and> kv (snd ?run) ''img:xyz'' = None"
    by (simp add: i1 v)
  from kvb not_isR2_xyz stp a b show ?thesis by simp
qed

end
